theory Spec2Isabelle
  imports Complex_Main
begin

section \<open>Smart motion detection system: a shallow embedding of smart_alert.py\<close>

text \<open>
  The program polls a PIR sensor, and on motion drives an LED, captures a still image and
  mails it. Everything outside the script (the GPIO driver, the camera, the file system,
  the mail transport, the wall clock and the delivery of signals) is an input of the
  model: each call of an external service takes its outcome as an argument, and appends
  an event to a trace, so that what the script attempted, and in which order, can be read
  off the final state. Python floats (clock readings and durations) are idealised as
  reals. Informational console output is left out; warnings and error reports are kept
  as \<open>Print\<close> events.
\<close>

subsection \<open>Exceptions\<close>

text \<open>
  \<open>Error msg\<close> stands for any exception deriving from \<open>Exception\<close> that a library raises
  (RuntimeError, OSError, KeyError, ...). \<open>KeyboardInterrupt\<close> and \<open>SystemExit\<close> derive
  from \<open>BaseException\<close> only, so an \<open>except Exception\<close> clause lets them pass.
\<close>

datatype exn =
    Error string
  | SMTPAuthenticationError
  | ImportError
  | NameError string
  | KeyboardInterrupt
  | SystemExit int

fun is_Exception :: "exn \<Rightarrow> bool" where
  "is_Exception KeyboardInterrupt = False"
| "is_Exception (SystemExit c) = False"
| "is_Exception e = True"

type_synonym 'a res = "exn + 'a"

subsection \<open>Configuration, globals and the observable world\<close>

record config =
  PIR_PIN :: nat
  LED_PIN :: nat
  LED_ON_TIME :: real
  COOLDOWN_TIME :: real
  SAVE_DIR :: string
  ENV_FILE :: string

definition settings :: config where
  "settings = \<lparr> PIR_PIN = 17, LED_PIN = 18, LED_ON_TIME = 10, COOLDOWN_TIME = 2,
     SAVE_DIR = ''captured_images'', ENV_FILE = ''config/.env'' \<rparr>"

datatype event =
    GpioInput nat
  | GpioOutput nat bool
  | GpioSetup
  | GpioCleanup
  | ForceRelease
  | CameraStart
  | CameraStop
  | Makedirs string
  | CaptureFile string
  | PathExists string
  | ReadFile string
  | SmtpConnect
  | Sleep real
  | Print string
  | Call string

text \<open>
  The module globals, the local \<open>motion_detected_time\<close> of \<open>main\<close>, and the world as far
  as the claims need it: the wall clock, the level of the actuator line, and the trace of
  attempted external operations. \<open>picam2\<close> is true when the global is not \<open>None\<close>.
\<close>

record sys =
  gpio_initialized :: bool
  camera_initialized :: bool
  picam2 :: bool
  email_configured :: bool
  email_config :: "string \<rightharpoonup> string"
  motion_detected_time :: real
  clock :: real
  led :: bool
  trace :: "event list"

definition emit :: "event \<Rightarrow> sys \<Rightarrow> sys" where
  "emit ev s = s\<lparr> trace := trace s @ [ev] \<rparr>"

definition and_then :: "('a res \<times> sys) \<Rightarrow> ('a \<Rightarrow> sys \<Rightarrow> 'b res \<times> sys) \<Rightarrow> 'b res \<times> sys" where
  "and_then m f = (case m of (Inl e, s) \<Rightarrow> (Inl e, s) | (Inr v, s) \<Rightarrow> f v s)"

text \<open>\<open>try: m except Exception as e: h\<close> and \<open>try: m except: h\<close>.\<close>

definition except_Exception ::
  "('a res \<times> sys) \<Rightarrow> (exn \<Rightarrow> sys \<Rightarrow> 'a res \<times> sys) \<Rightarrow> 'a res \<times> sys" where
  "except_Exception m h =
     (case m of (Inl e, s) \<Rightarrow> (if is_Exception e then h e s else (Inl e, s))
              | (Inr v, s) \<Rightarrow> (Inr v, s))"

definition except_any ::
  "('a res \<times> sys) \<Rightarrow> (exn \<Rightarrow> sys \<Rightarrow> 'a res \<times> sys) \<Rightarrow> 'a res \<times> sys" where
  "except_any m h = (case m of (Inl e, s) \<Rightarrow> h e s | (Inr v, s) \<Rightarrow> (Inr v, s))"

subsection \<open>External services\<close>

text \<open>
  A call of a driver or of the operating system: the attempt is recorded, and the outcome
  (\<open>None\<close>: returns normally, \<open>Some msg\<close>: raises) is an input.
\<close>

definition driver_call :: "event \<Rightarrow> string option \<Rightarrow> sys \<Rightarrow> unit res \<times> sys" where
  "driver_call ev r s =
     (case r of None \<Rightarrow> (Inr (), emit ev s) | Some msg \<Rightarrow> (Inl (Error msg), emit ev s))"

text \<open>\<open>GPIO.output(pin, level)\<close>: a write that succeeds sets the level of the line.\<close>

definition GPIO_output :: "nat \<Rightarrow> bool \<Rightarrow> string option \<Rightarrow> sys \<Rightarrow> unit res \<times> sys" where
  "GPIO_output pin level r s =
     (case r of None \<Rightarrow> (Inr (), (emit (GpioOutput pin level) s)\<lparr> led := level \<rparr>)
              | Some msg \<Rightarrow> (Inl (Error msg), emit (GpioOutput pin level) s))"

text \<open>\<open>GPIO.input(pin)\<close>: raises (\<open>Inl msg\<close>) or returns the level of the line.\<close>

definition GPIO_input :: "nat \<Rightarrow> string + bool \<Rightarrow> sys \<Rightarrow> bool res \<times> sys" where
  "GPIO_input pin r s =
     (case r of Inl msg \<Rightarrow> (Inl (Error msg), emit (GpioInput pin) s)
              | Inr level \<Rightarrow> (Inr level, emit (GpioInput pin) s))"

record cleanup_env =
  off_res :: "string option"
  stop_res :: "string option"
  gpio_cleanup_res :: "string option"

subsection \<open>LED control\<close>

definition led_on :: "config \<Rightarrow> string option \<Rightarrow> sys \<Rightarrow> unit res \<times> sys" where
  "led_on cfg r s0 =
     (let s = emit (Call ''led_on'') s0 in
      except_Exception
        (if gpio_initialized s then GPIO_output (LED_PIN cfg) True r s else (Inr (), s))
        (\<lambda>e s. (Inr (), emit (Print ''Error turning LED on'') s)))"

definition led_off :: "config \<Rightarrow> string option \<Rightarrow> sys \<Rightarrow> unit res \<times> sys" where
  "led_off cfg r s0 =
     (let s = emit (Call ''led_off'') s0 in
      except_Exception
        (if gpio_initialized s then GPIO_output (LED_PIN cfg) False r s else (Inr (), s))
        (\<lambda>e s. (Inr (), emit (Print ''Error turning LED off'') s)))"

subsection \<open>Cleanup and the signal handler\<close>

definition cleanup :: "config \<Rightarrow> cleanup_env \<Rightarrow> sys \<Rightarrow> unit res \<times> sys" where
  "cleanup cfg ce s0 =
     (let s = emit (Call ''cleanup'') s0 in
      and_then
        (except_any
           (if gpio_initialized s then GPIO_output (LED_PIN cfg) False (off_res ce) s
            else (Inr (), s))
           (\<lambda>e s. (Inr (), s)))
        (\<lambda>_ s.
      and_then
        (except_Exception
           (if camera_initialized s \<and> picam2 s then driver_call CameraStop (stop_res ce) s
            else (Inr (), s))
           (\<lambda>e s. (Inr (), emit (Print ''Error stopping camera'') s)))
        (\<lambda>_ s.
        except_Exception
           (if gpio_initialized s then driver_call GpioCleanup (gpio_cleanup_res ce) s
            else (Inr (), s))
           (\<lambda>e s. (Inr (), emit (Print ''Error cleaning up GPIO'') s)))))"

text \<open>\<open>signal_handler\<close>, installed for SIGINT and SIGTERM: teardown, then \<open>sys.exit(0)\<close>.\<close>

definition signal_handler :: "config \<Rightarrow> cleanup_env \<Rightarrow> sys \<Rightarrow> unit res \<times> sys" where
  "signal_handler cfg ce s =
     and_then (cleanup cfg ce (emit (Print ''Received interrupt signal'') s))
       (\<lambda>_ s. (Inl (SystemExit 0), s))"

text \<open>
  \<open>time.sleep(d)\<close>. A signal delivered while the process sleeps runs the handler in the
  main thread, and what the handler raises comes out of the call of \<open>sleep\<close>; the argument
  \<open>sig\<close> says whether that happens, and gives the outcomes of the handler's teardown.
  A sleep that is not interrupted advances the clock by its duration.
\<close>

definition time_sleep :: "config \<Rightarrow> real \<Rightarrow> cleanup_env option \<Rightarrow> sys \<Rightarrow> unit res \<times> sys" where
  "time_sleep cfg d sig s0 =
     (let s = emit (Sleep d) s0 in
      case sig of None \<Rightarrow> (Inr (), s\<lparr> clock := clock s + d \<rparr>)
                | Some ce \<Rightarrow> signal_handler cfg ce s)"

subsection \<open>Image capture\<close>

datatype smtp_result = Sent | AuthFailed | TransportError string

text \<open>What the environment answers during one iteration of the detection loop.\<close>

record cycle_env =
  pir :: "string + bool"
  time_now :: real
  led_on_res :: "string option"
  makedirs_res :: "string option"
  stamp :: string
  capture_res :: "string option"
  exists_res :: bool
  read_res :: "string option"
  smtp_res :: smtp_result
  hold_signal :: "cleanup_env option"
  led_off_res :: "string option"
  poll_signal :: "cleanup_env option"
  pause_signal :: "cleanup_env option"

definition path_join :: "string \<Rightarrow> string \<Rightarrow> string" where
  "path_join a b = (if a = [] then b else if last a = CHR ''/'' then a @ b else a @ ''/'' @ b)"

definition capture_image :: "config \<Rightarrow> cycle_env \<Rightarrow> sys \<Rightarrow> string option res \<times> sys" where
  "capture_image cfg e s0 =
     (let s = emit (Call ''capture_image'') s0 in
      except_Exception
        (if \<not> camera_initialized s \<or> \<not> picam2 s
         then (Inr None, emit (Print ''Camera not initialized, skipping capture'') s)
         else and_then (driver_call (Makedirs (SAVE_DIR cfg)) (makedirs_res e) s) (\<lambda>_ s.
           let filename = ''motion_'' @ stamp e @ ''.jpg'';
               filepath = path_join (SAVE_DIR cfg) filename
           in and_then (driver_call (CaptureFile filepath) (capture_res e) s)
                (\<lambda>_ s. (Inr (Some filepath), s))))
        (\<lambda>ex s. (Inr None, emit (Print ''Error capturing image'') s)))"

subsection \<open>Email configuration\<close>

text \<open>
  The configuration file, as the script finds it: absent, or a list of lines followed by
  an optional read error (\<open>open\<close> failing is the empty list with an error). Characters
  are code points below 256; \<open>isspace\<close> lists the ones \<open>str.strip\<close> removes.
\<close>

datatype env_file = NotFound | Content "string list" "string option"

definition isspace :: "char \<Rightarrow> bool" where
  "isspace c = (c \<in> set [CHR 0x09, CHR 0x0A, CHR 0x0B, CHR 0x0C, CHR 0x0D, CHR 0x1C,
     CHR 0x1D, CHR 0x1E, CHR 0x1F, CHR 0x20, CHR 0x85, CHR 0xA0])"

definition strip :: "string \<Rightarrow> string" where
  "strip l = rev (dropWhile isspace (rev (dropWhile isspace l)))"

definition startswith :: "string \<Rightarrow> string \<Rightarrow> bool" where
  "startswith l p = (take (length p) l = p)"

text \<open>\<open>line.split('=', 1)\<close> on a line that contains \<open>=\<close>.\<close>

definition split_eq :: "string \<Rightarrow> string \<times> string" where
  "split_eq l = (takeWhile (\<lambda>c. c \<noteq> CHR ''='') l, tl (dropWhile (\<lambda>c. c \<noteq> CHR ''='') l))"

fun parse_lines :: "string list \<Rightarrow> (string \<rightharpoonup> string) \<Rightarrow> (string \<rightharpoonup> string)" where
  "parse_lines [] m = m"
| "parse_lines (l # ls) m =
     (let line = strip l in
      if line = [] \<or> startswith line ''#'' then parse_lines ls m
      else if CHR ''='' \<in> set line
        then (case split_eq line of (key, val) \<Rightarrow> parse_lines ls (m(strip key \<mapsto> strip val)))
        else parse_lines ls m)"

definition required_fields :: "string list" where
  "required_fields = [''SENDER_EMAIL'', ''EMAIL_PASSWORD'', ''RECIPIENT_EMAIL'']"

text \<open>\<open>not email_config.get(field) or email_config.get(field).startswith('your_')\<close>\<close>

definition field_missing :: "(string \<rightharpoonup> string) \<Rightarrow> string \<Rightarrow> bool" where
  "field_missing m field =
     (case m field of None \<Rightarrow> True | Some v \<Rightarrow> v = [] \<or> startswith v ''your_'')"

definition missing_fields :: "(string \<rightharpoonup> string) \<Rightarrow> string list" where
  "missing_fields m = filter (field_missing m) required_fields"

definition load_email_config :: "config \<Rightarrow> env_file \<Rightarrow> sys \<Rightarrow> bool res \<times> sys" where
  "load_email_config cfg f s0 =
     except_Exception
       (let s = emit (PathExists (ENV_FILE cfg)) s0 in
        case f of
          NotFound \<Rightarrow> (Inr False, emit (Print ''Email config file not found'') s)
        | Content ls err \<Rightarrow>
            (let s1 = (emit (ReadFile (ENV_FILE cfg)) s)
                        \<lparr> email_config := parse_lines ls (email_config s) \<rparr>
             in case err of
                  Some msg \<Rightarrow> (Inl (Error msg), s1)
                | None \<Rightarrow>
                    if missing_fields (email_config s1) \<noteq> []
                    then (Inr False, emit (Print ''Missing email configuration'') s1)
                    else (Inr True, s1\<lparr> email_configured := True \<rparr>)))
       (\<lambda>e s. (Inr False, emit (Print ''Error loading email config'') s))"

subsection \<open>Email sending\<close>

text \<open>\<open>email_config[key]\<close> raises KeyError on a missing key.\<close>

definition dict_item :: "string \<Rightarrow> sys \<Rightarrow> string res \<times> sys" where
  "dict_item key s =
     (case email_config s key of None \<Rightarrow> (Inl (Error ''KeyError''), s) | Some v \<Rightarrow> (Inr v, s))"

text \<open>
  The \<open>with smtplib.SMTP('smtp.gmail.com', 587)\<close> block: the connection attempt is
  recorded; a transport error, a missing password key or a rejected login raise.
\<close>

definition smtp_session :: "smtp_result \<Rightarrow> sys \<Rightarrow> unit res \<times> sys" where
  "smtp_session r s0 =
     (let s = emit SmtpConnect s0 in
      case r of
        TransportError msg \<Rightarrow> (Inl (Error msg), s)
      | AuthFailed \<Rightarrow>
          and_then (dict_item ''EMAIL_PASSWORD'' s) (\<lambda>_ s. (Inl SMTPAuthenticationError, s))
      | Sent \<Rightarrow> and_then (dict_item ''EMAIL_PASSWORD'' s) (\<lambda>_ s. (Inr (), s)))"

text \<open>\<open>not image_path\<close>: the path is \<open>None\<close> or the empty string.\<close>

definition falsy :: "string option \<Rightarrow> bool" where
  "falsy p = (case p of None \<Rightarrow> True | Some q \<Rightarrow> q = [])"

text \<open>
  The two \<open>except\<close> clauses of \<open>send_email_alert\<close>, in the order of the source.
\<close>

definition send_handlers :: "(bool res \<times> sys) \<Rightarrow> bool res \<times> sys" where
  "send_handlers m =
     (case m of
        (Inl SMTPAuthenticationError, s) \<Rightarrow>
          (Inr False, emit (Print ''Email authentication failed'') s)
      | (Inl e, s) \<Rightarrow>
          (if is_Exception e then (Inr False, emit (Print ''Error sending email'') s)
           else (Inl e, s))
      | (Inr v, s) \<Rightarrow> (Inr v, s))"

definition send_email_alert :: "cycle_env \<Rightarrow> string option \<Rightarrow> sys \<Rightarrow> bool res \<times> sys" where
  "send_email_alert e image_path s0 =
     (let s = emit (Call ''send_email_alert'') s0 in
      send_handlers
        (if \<not> email_configured s
         then (Inr False, emit (Print ''Email not configured, skipping email send'') s)
         else if falsy image_path
         then (Inr False, emit (Print ''Image file not found, cannot send email'') s)
         else if \<not> exists_res e
         then (Inr False,
               emit (Print ''Image file not found, cannot send email'')
                 (emit (PathExists (the image_path)) s))
         else
           and_then (dict_item ''SENDER_EMAIL'' (emit (PathExists (the image_path)) s)) (\<lambda>_ s.
           and_then (dict_item ''RECIPIENT_EMAIL'' s) (\<lambda>_ s.
           and_then (driver_call (ReadFile (the image_path)) (read_res e) s) (\<lambda>_ s.
           and_then (smtp_session (smtp_res e) s) (\<lambda>_ s. (Inr True, s)))))))"

subsection \<open>The detection loop\<close>

text \<open>
  The statements of one accepted trigger, lines 458 to 478 of the source: the body of
  \<open>if current_time - motion_detected_time > COOLDOWN_TIME\<close>.
\<close>

definition respond :: "config \<Rightarrow> cycle_env \<Rightarrow> real \<Rightarrow> sys \<Rightarrow> unit res \<times> sys" where
  "respond cfg e current_time s =
     and_then (led_on cfg (led_on_res e) s) (\<lambda>_ s.
     and_then (capture_image cfg e s) (\<lambda>filepath s.
     and_then
       (if \<not> falsy filepath
        then (if email_configured s
              then and_then (send_email_alert e filepath s) (\<lambda>_ s. (Inr (), s))
              else (Inr (), s))
        else (Inr (), s)) (\<lambda>_ s.
     and_then (time_sleep cfg (LED_ON_TIME cfg) (hold_signal e) s) (\<lambda>_ s.
     and_then (led_off cfg (led_off_res e) s) (\<lambda>_ s.
     (Inr (), s\<lparr> motion_detected_time := current_time \<rparr>))))))"

text \<open>The body of the inner \<open>try\<close>, and the whole iteration with its \<open>except Exception\<close>.\<close>

definition poll :: "config \<Rightarrow> cycle_env \<Rightarrow> sys \<Rightarrow> unit res \<times> sys" where
  "poll cfg e s =
     and_then (GPIO_input (PIR_PIN cfg) (pir e) s) (\<lambda>level s.
     and_then
       (if level
        then (let current_time = time_now e; s1 = s\<lparr> clock := current_time \<rparr> in
              if current_time - motion_detected_time s1 > COOLDOWN_TIME cfg
              then respond cfg e current_time s1
              else (Inr (), s1))
        else (Inr (), s)) (\<lambda>_ s.
     time_sleep cfg (1 / 10) (poll_signal e) s))"

definition loop_iteration :: "config \<Rightarrow> cycle_env \<Rightarrow> sys \<Rightarrow> unit res \<times> sys" where
  "loop_iteration cfg e s =
     except_Exception (poll cfg e s)
       (\<lambda>ex s. time_sleep cfg 1 (pause_signal e) (emit (Print ''Error in main loop'') s))"

text \<open>
  \<open>while True\<close>, run for the iterations whose environment is given. \<open>Inr ()\<close>: the loop
  is still polling after them; \<open>Inl ex\<close>: the exception \<open>ex\<close> left the loop.
\<close>

fun run_loop :: "config \<Rightarrow> cycle_env list \<Rightarrow> sys \<Rightarrow> unit res \<times> sys" where
  "run_loop cfg [] s = (Inr (), s)"
| "run_loop cfg (e # es) s =
     (case loop_iteration cfg e s of
        (Inl ex, s') \<Rightarrow> (Inl ex, s')
      | (Inr _, s') \<Rightarrow> run_loop cfg es s')"

subsection \<open>Startup\<close>

definition MAX_RETRIES :: nat where
  "MAX_RETRIES = 5"

text \<open>
  One pass of the \<open>for attempt in range(MAX_RETRIES)\<close> loop of \<open>setup_gpio\<close>. The four
  driver calls that claim the lines have one outcome, \<open>outcome attempt\<close>; where they
  succeed the actuator line has been driven low. The diagnosis of a busy line in the
  handler only prints, inside a guard of its own, and is left out. \<open>Some b\<close>: the
  function returns \<open>b\<close>; \<open>None\<close>: the loop goes on.
\<close>

definition gpio_attempt ::
  "config \<Rightarrow> (nat \<Rightarrow> string option) \<Rightarrow> nat \<Rightarrow> sys \<Rightarrow> bool option res \<times> sys" where
  "gpio_attempt cfg outcome attempt s0 =
     except_Exception
       (let s = emit GpioCleanup s0 in
        and_then (if attempt > 0 then time_sleep cfg 1 None s else (Inr (), s)) (\<lambda>_ s.
        and_then (driver_call GpioSetup (outcome attempt) s) (\<lambda>_ s.
        and_then (GPIO_output (LED_PIN cfg) False None s) (\<lambda>_ s.
        (Inr (Some True), s\<lparr> gpio_initialized := True \<rparr>)))))
       (\<lambda>ex s.
          (let s1 = emit (Print ''GPIO setup attempt failed'') s in
           if attempt = MAX_RETRIES - 1
           then (Inr (Some False), emit (Print ''Failed to initialize GPIO after retries'') s1)
           else (Inr None, s1)))"

fun gpio_attempts_over ::
  "config \<Rightarrow> (nat \<Rightarrow> string option) \<Rightarrow> nat list \<Rightarrow> sys \<Rightarrow> bool res \<times> sys" where
  "gpio_attempts_over cfg outcome [] s = (Inr False, s)"
| "gpio_attempts_over cfg outcome (attempt # rest) s =
     (case gpio_attempt cfg outcome attempt s of
        (Inl ex, s') \<Rightarrow> (Inl ex, s')
      | (Inr (Some b), s') \<Rightarrow> (Inr b, s')
      | (Inr None, s') \<Rightarrow> gpio_attempts_over cfg outcome rest s')"

text \<open>
  \<open>force_release_gpio\<close> is best effort: its whole body is guarded and its result unused,
  so it is one event.
\<close>

definition setup_gpio :: "config \<Rightarrow> (nat \<Rightarrow> string option) \<Rightarrow> sys \<Rightarrow> bool res \<times> sys" where
  "setup_gpio cfg outcome s =
     gpio_attempts_over cfg outcome [0 ..< MAX_RETRIES] (emit ForceRelease s)"

text \<open>
  \<open>setup_camera\<close>: the module is missing, the constructor raises (\<open>picam2\<close> stays
  \<open>None\<close>), configuring or starting raises (\<open>picam2\<close> is set), or the camera is ready.
\<close>

datatype camera_setup = CamReady | CamNoModule | CamCtorError string | CamStartError string

definition camera_handlers :: "(bool res \<times> sys) \<Rightarrow> bool res \<times> sys" where
  "camera_handlers m =
     (case m of
        (Inl ImportError, s) \<Rightarrow> (Inr False, emit (Print ''picamera2 module not found'') s)
      | (Inl e, s) \<Rightarrow>
          (if is_Exception e then (Inr False, emit (Print ''Error setting up camera'') s)
           else (Inl e, s))
      | (Inr v, s) \<Rightarrow> (Inr v, s))"

definition setup_camera :: "config \<Rightarrow> camera_setup \<Rightarrow> sys \<Rightarrow> bool res \<times> sys" where
  "setup_camera cfg r s =
     camera_handlers
       (case r of
          CamNoModule \<Rightarrow> (Inl ImportError, s)
        | CamCtorError msg \<Rightarrow> (Inl (Error msg), s)
        | CamStartError msg \<Rightarrow> (Inl (Error msg), emit CameraStart (s\<lparr> picam2 := True \<rparr>))
        | CamReady \<Rightarrow>
            and_then (time_sleep cfg 2 None (emit CameraStart (s\<lparr> picam2 := True \<rparr>)))
              (\<lambda>_ s. (Inr True, s\<lparr> camera_initialized := True \<rparr>)))"

subsection \<open>Main function and entry point\<close>

record main_env =
  gpio_attempts :: "nat \<Rightarrow> string option"
  camera_res :: camera_setup
  env_file_res :: env_file
  save_dir_res :: "string option"
  abort_cleanup :: cleanup_env
  cycles :: "cycle_env list"

text \<open>
  \<open>main\<close>. \<open>Inr (Some c)\<close>: it returns \<open>c\<close>; \<open>Inr None\<close>: it is still in the detection
  loop after the given iterations; \<open>Inl ex\<close>: \<open>ex\<close> propagates to the caller.
\<close>

definition main :: "config \<Rightarrow> main_env \<Rightarrow> sys \<Rightarrow> int option res \<times> sys" where
  "main cfg me s0 =
     and_then (setup_gpio cfg (gpio_attempts me) s0) (\<lambda>ok s.
     if \<not> ok then (Inr (Some 1), emit (Print ''Failed to initialize GPIO. Exiting.'') s)
     else
     and_then (setup_camera cfg (camera_res me) s) (\<lambda>cam s.
     and_then (load_email_config cfg (env_file_res me)
                 (if \<not> cam
                  then emit (Print ''Camera initialization failed. Running without camera.'') s
                  else s)) (\<lambda>_ s.
     and_then
       (except_Exception
          (and_then (driver_call (Makedirs (SAVE_DIR cfg)) (save_dir_res me) s)
             (\<lambda>_ s. (Inr None, s)))
          (\<lambda>ex s.
             and_then (cleanup cfg (abort_cleanup me)
                         (emit (Print ''Error creating save directory'') s))
               (\<lambda>_ s. (Inr (Some 1), s)))) (\<lambda>ret s.
     case ret of
       Some c \<Rightarrow> (Inr (Some c), s)
     | None \<Rightarrow>
         (case run_loop cfg (cycles me) (s\<lparr> motion_detected_time := 0 \<rparr>) of
            (Inl KeyboardInterrupt, s') \<Rightarrow> (Inr (Some 0), s')
          | (Inl ex, s') \<Rightarrow> (Inl ex, s')
          | (Inr _, s') \<Rightarrow> (Inr None, s'))))))"

text \<open>
  The exit status of the interpreter when an exception reaches the top of the script:
  the code of a \<open>SystemExit\<close>, and 1 (after a traceback) for any other exception.
\<close>

fun process_status :: "exn \<Rightarrow> int" where
  "process_status (SystemExit c) = c"
| "process_status ex = 1"

text \<open>
  \<open>sys.exit(exit_code)\<close>, where the module global \<open>exit_code\<close> is bound to a value or
  has never been assigned: reading an unbound name raises NameError.
\<close>

fun sys_exit :: "int option \<Rightarrow> exn" where
  "sys_exit (Some c) = SystemExit c"
| "sys_exit None = NameError ''exit_code''"

text \<open>The \<open>finally\<close> clause of the entry point: teardown, then \<open>sys.exit(exit_code)\<close>.\<close>

definition finally_clause :: "config \<Rightarrow> cleanup_env \<Rightarrow> int option \<Rightarrow> sys \<Rightarrow> int \<times> sys" where
  "finally_clause cfg fe exit_code s =
     (case cleanup cfg fe s of
        (Inl ex, s') \<Rightarrow> (process_status ex, s')
      | (Inr _, s') \<Rightarrow> (process_status (sys_exit exit_code), s'))"

text \<open>
  The block under \<open>if __name__ == "__main__"\<close>. The result is the exit status of the
  process, or \<open>None\<close> while \<open>main\<close> is still in the detection loop. \<open>exit_code\<close> is
  assigned when \<open>main\<close> returns and in the \<open>except Exception\<close> clause, and nowhere else.
\<close>

definition entry_point ::
  "config \<Rightarrow> main_env \<Rightarrow> cleanup_env \<Rightarrow> sys \<Rightarrow> int option \<times> sys" where
  "entry_point cfg me fe s0 =
     (case main cfg me s0 of
        (Inr None, s) \<Rightarrow> (None, s)
      | (Inr (Some c), s) \<Rightarrow>
          (case finally_clause cfg fe (Some c) s of (st, s') \<Rightarrow> (Some st, s'))
      | (Inl ex, s) \<Rightarrow>
          (if is_Exception ex
           then (case finally_clause cfg fe (Some 1) (emit (Print ''Fatal error'') s) of
                   (st, s') \<Rightarrow> (Some st, s'))
           else (case finally_clause cfg fe None s of (st, s') \<Rightarrow> (Some st, s'))))"

text \<open>The state of a fresh process: the module globals as the script initialises them.\<close>

definition boot :: "real \<Rightarrow> sys" where
  "boot t = \<lparr> gpio_initialized = False, camera_initialized = False, picam2 = False,
     email_configured = False, email_config = Map.empty, motion_detected_time = 0,
     clock = t, led = False, trace = [] \<rparr>"

subsection \<open>Reading the trace\<close>

text \<open>The events appended between two states of one run.\<close>

definition new_events :: "sys \<Rightarrow> sys \<Rightarrow> event list" where
  "new_events s s' = drop (length (trace s)) (trace s')"

text \<open>
  The step of a detection cycle an event belongs to: 1 actuator on, 2 capture,
  3 notification, 4 hold, 5 actuator off, 6 teardown, and 0 for sensor reads and startup.
\<close>

fun phase :: "event \<Rightarrow> nat" where
  "phase (Call f) =
     (if f = ''led_on'' then 1 else if f = ''capture_image'' then 2
      else if f = ''send_email_alert'' then 3 else if f = ''led_off'' then 5
      else if f = ''cleanup'' then 6 else 0)"
| "phase (GpioOutput pin level) = (if level then 1 else 5)"
| "phase (Makedirs d) = 2"
| "phase (CaptureFile p) = 2"
| "phase (PathExists p) = 3"
| "phase (ReadFile p) = 3"
| "phase SmtpConnect = 3"
| "phase (Sleep d) = 4"
| "phase CameraStop = 6"
| "phase GpioCleanup = 6"
| "phase (Print msg) =
     (if msg = ''Error turning LED on'' then 1
      else if msg = ''Camera not initialized, skipping capture'' \<or> msg = ''Error capturing image''
        then 2
      else if msg = ''Email not configured, skipping email send''
           \<or> msg = ''Image file not found, cannot send email''
           \<or> msg = ''Email authentication failed'' \<or> msg = ''Error sending email'' then 3
      else if msg = ''Error turning LED off'' then 5
      else if msg = ''Received interrupt signal'' \<or> msg = ''Error stopping camera''
           \<or> msg = ''Error cleaning up GPIO'' then 6
      else 0)"
| "phase ev = 0"

text \<open>
  \<open>grows P s s'\<close>: \<open>s'\<close> has the trace of \<open>s\<close> followed by events that satisfy \<open>P\<close>.
  \<open>same_globals\<close>: the module globals are the same in both states.
\<close>

definition grows :: "(event \<Rightarrow> bool) \<Rightarrow> sys \<Rightarrow> sys \<Rightarrow> bool" where
  "grows P s s' = (\<exists>evs. trace s' = trace s @ evs \<and> list_all P evs)"

definition same_globals :: "sys \<Rightarrow> sys \<Rightarrow> bool" where
  "same_globals s s' =
     (gpio_initialized s' = gpio_initialized s \<and> camera_initialized s' = camera_initialized s
      \<and> picam2 s' = picam2 s \<and> email_configured s' = email_configured s
      \<and> email_config s' = email_config s)"

subsection \<open>Concrete environments\<close>

text \<open>
  Environments and states on which the theorems below are instantiated: a teardown in
  which every driver call succeeds, an iteration in which the sensor is active and every
  service succeeds, and the state of a process whose startup succeeded.
\<close>

definition calm :: cleanup_env where
  "calm = \<lparr> off_res = None, stop_res = None, gpio_cleanup_res = None \<rparr>"

definition motion :: cycle_env where
  "motion = \<lparr> pir = Inr True, time_now = 1700000000, led_on_res = None,
     makedirs_res = None, stamp = ''20231114_221320'', capture_res = None,
     exists_res = True, read_res = None, smtp_res = Sent, hold_signal = None,
     led_off_res = None, poll_signal = None, pause_signal = None \<rparr>"

definition armed :: sys where
  "armed = (boot 1700000000)\<lparr> gpio_initialized := True, camera_initialized := True,
     picam2 := True \<rparr>"

text \<open>
  A run in which startup succeeds without camera and without mail configuration, and
  SIGTERM arrives during the poll delay of the first iteration.
\<close>

definition sigterm_run :: main_env where
  "sigterm_run = \<lparr> gpio_attempts = (\<lambda>attempt. None), camera_res = CamNoModule,
     env_file_res = NotFound, save_dir_res = None, abort_cleanup = calm,
     cycles = [motion\<lparr> pir := Inr False, poll_signal := Some calm \<rparr>] \<rparr>"

text \<open>No signal is delivered during the iteration.\<close>

definition undisturbed :: "cycle_env \<Rightarrow> bool" where
  "undisturbed e = (hold_signal e = None \<and> poll_signal e = None \<and> pause_signal e = None)"

text \<open>
  Two configuration files: one that still has the placeholder of the template for the
  recipient, and one that is filled in.
\<close>

definition placeholder_file :: "string list" where
  "placeholder_file =
     [''# mail settings'', ''SENDER_EMAIL=pi@example.org'', ''EMAIL_PASSWORD = secret '',
      [], ''RECIPIENT_EMAIL=your_email@example.org'']"

definition complete_file :: "string list" where
  "complete_file =
     [''# mail settings'', ''SENDER_EMAIL=pi@example.org'', ''EMAIL_PASSWORD = secret '',
      [], ''RECIPIENT_EMAIL=owner@example.org'']"





text \<open>
  The events that startup may produce: no sensor read, no call of a helper, no write
  that drives the actuator high, no capture and no connection.
\<close>

fun startup_event :: "event \<Rightarrow> bool" where
  "startup_event (GpioInput pin) = False"
| "startup_event (Call f) = False"
| "startup_event (GpioOutput pin level) = (\<not> level)"
| "startup_event (CaptureFile p) = False"
| "startup_event SmtpConnect = False"
| "startup_event ev = True"

text \<open>
  In a list of events, no sensor read comes after the first call of \<open>cleanup\<close>.
\<close>

fun is_GpioInput :: "event \<Rightarrow> bool" where
  "is_GpioInput (GpioInput pin) = True"
| "is_GpioInput ev = False"


text \<open>
  A run in which startup succeeds at the third attempt, with camera and mail, and the
  sensor reads inactive, raises once, and then reads active.
\<close>

definition third_try_run :: main_env where
  "third_try_run = \<lparr> gpio_attempts = (\<lambda>attempt. if attempt < 2 then Some ''GPIO busy'' else None),
     camera_res = CamReady, env_file_res = Content complete_file None, save_dir_res = None,
     abort_cleanup = calm,
     cycles = [motion\<lparr> pir := Inr False \<rparr>, motion\<lparr> pir := Inl ''read error'' \<rparr>, motion] \<rparr>"

section \<open>Auxiliary facts\<close>

lemma and_then_Inl [simp]: "and_then (Inl e, s) f = (Inl e, s)"
  and and_then_Inr [simp]: "and_then (Inr v, s) f = f v s"
  by (simp_all add: and_then_def)

lemma except_Exception_Inr [simp]: "except_Exception (Inr v, s) h = (Inr v, s)"
  and except_Exception_Inl [simp]:
    "except_Exception (Inl e, s) h = (if is_Exception e then h e s else (Inl e, s))"
  by (simp_all add: except_Exception_def)

lemma except_any_simps [simp]: "except_any (Inr v, s) h = (Inr v, s)"
    "except_any (Inl e, s) h = h e s"
  by (simp_all add: except_any_def)

lemma emit_simps [simp]:
  "trace (emit ev s) = trace s @ [ev]"
  "gpio_initialized (emit ev s) = gpio_initialized s"
  "camera_initialized (emit ev s) = camera_initialized s"
  "picam2 (emit ev s) = picam2 s"
  "email_configured (emit ev s) = email_configured s"
  "email_config (emit ev s) = email_config s"
  "motion_detected_time (emit ev s) = motion_detected_time s"
  "clock (emit ev s) = clock s"
  "led (emit ev s) = led s"
  by (simp_all add: emit_def)

lemma grows_refl [simp]: "grows P s s"
  by (simp add: grows_def)

lemma grows_trans: "grows P s s' \<Longrightarrow> grows P s' s'' \<Longrightarrow> grows P s s''"
  by (auto simp: grows_def)

lemma grows_mono: "grows P s s' \<Longrightarrow> (\<And>ev. P ev \<Longrightarrow> Q ev) \<Longrightarrow> grows Q s s'"
  by (auto simp: grows_def list_all_iff)

lemma grows_new_events: "grows P s s' \<Longrightarrow> list_all P (new_events s s')"
  by (auto simp: grows_def new_events_def)

lemma grows_trace: "grows P s s' \<Longrightarrow> trace s' = trace s @ new_events s s'"
  by (auto simp: grows_def new_events_def)

lemma led_on_result: "fst (led_on cfg r s) = Inr ()"
  by (simp add: led_on_def GPIO_output_def Let_def split: option.splits)

lemma led_on_grows: "grows (\<lambda>ev. phase ev = 1) s (snd (led_on cfg r s))"
  by (simp add: led_on_def GPIO_output_def Let_def grows_def split: option.splits)

lemma led_on_globals: "same_globals s (snd (led_on cfg r s))"
  by (simp add: led_on_def GPIO_output_def Let_def same_globals_def split: option.splits)

lemma led_off_result: "fst (led_off cfg r s) = Inr ()"
  by (simp add: led_off_def GPIO_output_def Let_def split: option.splits)

lemma led_off_grows: "grows (\<lambda>ev. phase ev = 5) s (snd (led_off cfg r s))"
  by (simp add: led_off_def GPIO_output_def Let_def grows_def split: option.splits)

lemma cleanup_result: "fst (cleanup cfg ce s) = Inr ()"
  by (simp add: cleanup_def GPIO_output_def driver_call_def Let_def split: option.splits)

lemma cleanup_grows: "grows (\<lambda>ev. phase ev = 5 \<or> phase ev = 6) s (snd (cleanup cfg ce s))"
  by (simp add: cleanup_def GPIO_output_def driver_call_def Let_def grows_def split: option.splits)

lemma capture_image_result: "\<not> isl (fst (capture_image cfg e s))"
  by (simp add: capture_image_def driver_call_def Let_def split: option.splits)

lemma capture_image_grows: "grows (\<lambda>ev. phase ev = 2) s (snd (capture_image cfg e s))"
  by (simp add: capture_image_def driver_call_def Let_def grows_def split: option.splits)

lemma send_handlers_result: "\<not> isl (fst (send_handlers m)) \<or> (\<exists>ex. fst m = Inl ex \<and> \<not> is_Exception ex)"
  by (cases m; cases "fst m") (auto simp: send_handlers_def split: exn.splits)

lemma dict_item_cases: "dict_item k s = (Inl (Error ''KeyError''), s) \<or> (\<exists>v. dict_item k s = (Inr v, s))"
  by (simp add: dict_item_def split: option.splits)

lemma smtp_session_cases:
  "(\<exists>ex. is_Exception ex \<and> smtp_session r s = (Inl ex, emit SmtpConnect s)) \<or> smtp_session r s = (Inr (), emit SmtpConnect s)"
  using dict_item_cases [of "''EMAIL_PASSWORD''" "emit SmtpConnect s"]
  by (auto simp: smtp_session_def Let_def split: smtp_result.splits)

lemma send_email_alert_result: "\<not> isl (fst (send_email_alert e p s))"
  using dict_item_cases [of "''SENDER_EMAIL''" "emit (PathExists (the p)) (emit (Call ''send_email_alert'') s)"]
     dict_item_cases [of "''RECIPIENT_EMAIL''" "emit (PathExists (the p)) (emit (Call ''send_email_alert'') s)"]
     smtp_session_cases [of "smtp_res e" "emit (ReadFile (the p)) (emit (PathExists (the p)) (emit (Call ''send_email_alert'') s))"]
  by (auto simp: send_email_alert_def send_handlers_def driver_call_def Let_def split: option.splits exn.splits)

lemma send_email_alert_grows: "grows (\<lambda>ev. phase ev = 3) s (snd (send_email_alert e p s))"
  using dict_item_cases [of "''SENDER_EMAIL''" "emit (PathExists (the p)) (emit (Call ''send_email_alert'') s)"]
     dict_item_cases [of "''RECIPIENT_EMAIL''" "emit (PathExists (the p)) (emit (Call ''send_email_alert'') s)"]
     smtp_session_cases [of "smtp_res e" "emit (ReadFile (the p)) (emit (PathExists (the p)) (emit (Call ''send_email_alert'') s))"]
  by (auto simp: send_email_alert_def send_handlers_def driver_call_def Let_def grows_def split: option.splits exn.splits)


lemma time_sleep_None [simp]:
  "time_sleep cfg d None s = (Inr (), (emit (Sleep d) s)\<lparr> clock := clock s + d \<rparr>)"
  by (simp add: time_sleep_def Let_def)

lemma signal_handler_result: "fst (signal_handler cfg ce s) = Inl (SystemExit 0)"
  using cleanup_result [of cfg ce "emit (Print ''Received interrupt signal'') s"]
  by (cases "cleanup cfg ce (emit (Print ''Received interrupt signal'') s)")
     (simp add: signal_handler_def)

lemma signal_handler_snd:
  "snd (signal_handler cfg ce s) = snd (cleanup cfg ce (emit (Print ''Received interrupt signal'') s))"
  using cleanup_result [of cfg ce "emit (Print ''Received interrupt signal'') s"]
  by (cases "cleanup cfg ce (emit (Print ''Received interrupt signal'') s)")
     (simp add: signal_handler_def)

lemma time_sleep_Some: "fst (time_sleep cfg d (Some ce) s) = Inl (SystemExit 0)"
  by (simp add: time_sleep_def Let_def signal_handler_result)

lemma grows_emit_left: "grows P (emit ev s) s' \<Longrightarrow> P ev \<Longrightarrow> grows P s s'"
  by (auto simp: grows_def)

lemma time_sleep_grows:
  "grows (\<lambda>ev. phase ev = 4 \<or> phase ev = 5 \<or> phase ev = 6) s (snd (time_sleep cfg d sig s))"
proof (cases sig)
  case None
  then show ?thesis by (simp add: grows_def)
next
  case (Some ce)
  let ?P = "\<lambda>ev. phase ev = 4 \<or> phase ev = 5 \<or> phase ev = 6"
  let ?s1 = "emit (Sleep d) s"
  let ?s2 = "emit (Print ''Received interrupt signal'') ?s1"
  have "grows ?P ?s2 (snd (cleanup cfg ce ?s2))"
    by (rule grows_mono [OF cleanup_grows]) simp
  then have "grows ?P ?s1 (snd (cleanup cfg ce ?s2))"
    by (rule grows_emit_left) simp
  then have "grows ?P s (snd (cleanup cfg ce ?s2))"
    by (rule grows_emit_left) simp
  with Some show ?thesis
    by (simp add: time_sleep_def Let_def signal_handler_snd)
qed





lemma send_email_alert_call:
  "Call ''send_email_alert'' \<in> set (new_events s (snd (send_email_alert e p s)))"
  using dict_item_cases [of "''SENDER_EMAIL''" "emit (PathExists (the p)) (emit (Call ''send_email_alert'') s)"]
     dict_item_cases [of "''RECIPIENT_EMAIL''" "emit (PathExists (the p)) (emit (Call ''send_email_alert'') s)"]
     smtp_session_cases [of "smtp_res e" "emit (ReadFile (the p)) (emit (PathExists (the p)) (emit (Call ''send_email_alert'') s))"]
  by (auto simp: send_email_alert_def send_handlers_def driver_call_def Let_def new_events_def split: option.splits exn.splits)

lemma new_events_same [simp]: "new_events s s = []"
  by (simp add: new_events_def)

lemma send_email_alert_globals: "same_globals s (snd (send_email_alert e p s))"
  using dict_item_cases [of "''SENDER_EMAIL''" "emit (PathExists (the p)) (emit (Call ''send_email_alert'') s)"]
     dict_item_cases [of "''RECIPIENT_EMAIL''" "emit (PathExists (the p)) (emit (Call ''send_email_alert'') s)"]
     smtp_session_cases [of "smtp_res e" "emit (ReadFile (the p)) (emit (PathExists (the p)) (emit (Call ''send_email_alert'') s))"]
  by (auto simp: send_email_alert_def send_handlers_def driver_call_def Let_def same_globals_def split: option.splits exn.splits)

lemma send_email_alert_keeps:
  "motion_detected_time (snd (send_email_alert e p s)) = motion_detected_time s
   \<and> clock (snd (send_email_alert e p s)) = clock s \<and> led (snd (send_email_alert e p s)) = led s"
  using dict_item_cases [of "''SENDER_EMAIL''" "emit (PathExists (the p)) (emit (Call ''send_email_alert'') s)"]
     dict_item_cases [of "''RECIPIENT_EMAIL''" "emit (PathExists (the p)) (emit (Call ''send_email_alert'') s)"]
     smtp_session_cases [of "smtp_res e" "emit (ReadFile (the p)) (emit (PathExists (the p)) (emit (Call ''send_email_alert'') s))"]
  by (auto simp: send_email_alert_def send_handlers_def driver_call_def Let_def split: option.splits exn.splits)

lemma notify_step:
  "\<exists>s3. (if \<not> falsy p
        then (if email_configured s
              then and_then (send_email_alert e p s) (\<lambda>_ s. (Inr (), s))
              else (Inr (), s))
        else (Inr (), s)) = (Inr (), s3) \<and> grows (\<lambda>ev. phase ev = 3) s s3
      \<and> (Call ''send_email_alert'' \<in> set (new_events s s3) \<longleftrightarrow> \<not> falsy p \<and> email_configured s)
      \<and> same_globals s s3 \<and> motion_detected_time s3 = motion_detected_time s
      \<and> clock s3 = clock s \<and> led s3 = led s
      \<and> (falsy p \<or> \<not> email_configured s \<longrightarrow> new_events s s3 = [])"
proof (cases "\<not> falsy p \<and> email_configured s")
  case True
  obtain b s3 where r: "send_email_alert e p s = (Inr b, s3)"
    using send_email_alert_result [of e p s]
    by (cases "send_email_alert e p s"; cases "fst (send_email_alert e p s)") auto
  show ?thesis
    using True r send_email_alert_grows [of s e p] send_email_alert_call [of s e p]
      send_email_alert_globals [of s e p] send_email_alert_keeps [of e p s]
    by simp
next
  case False
  then show ?thesis by (auto simp: same_globals_def)
qed

lemma path_join_nonempty: "b \<noteq> [] \<Longrightarrow> path_join a b \<noteq> []"
  by (simp add: path_join_def)

lemma capture_image_path:
  "fst (capture_image cfg e s) =
     Inr (if camera_initialized s \<and> picam2 s \<and> makedirs_res e = None \<and> capture_res e = None
          then Some (path_join (SAVE_DIR cfg) (''motion_'' @ stamp e @ ''.jpg'')) else None)"
  by (simp add: capture_image_def driver_call_def Let_def split: option.splits)

lemma capture_image_call: "Call ''capture_image'' \<in> set (new_events s (snd (capture_image cfg e s)))"
  by (simp add: capture_image_def driver_call_def Let_def new_events_def split: option.splits)

lemma capture_image_keeps:
  "same_globals s (snd (capture_image cfg e s))
   \<and> motion_detected_time (snd (capture_image cfg e s)) = motion_detected_time s
   \<and> clock (snd (capture_image cfg e s)) = clock s \<and> led (snd (capture_image cfg e s)) = led s"
  by (simp add: capture_image_def driver_call_def Let_def same_globals_def split: option.splits)

lemma led_on_call: "Call ''led_on'' \<in> set (new_events s (snd (led_on cfg r s)))"
  by (simp add: led_on_def GPIO_output_def Let_def new_events_def split: option.splits)

lemma led_on_write:
  "GpioOutput (LED_PIN cfg) True \<in> set (new_events s (snd (led_on cfg r s))) \<longleftrightarrow> gpio_initialized s"
  by (simp add: led_on_def GPIO_output_def Let_def new_events_def split: option.splits)

lemma led_on_keeps:
  "motion_detected_time (snd (led_on cfg r s)) = motion_detected_time s
   \<and> clock (snd (led_on cfg r s)) = clock s"
  by (simp add: led_on_def GPIO_output_def Let_def split: option.splits)

lemma led_off_call: "Call ''led_off'' \<in> set (new_events s (snd (led_off cfg r s)))"
  by (simp add: led_off_def GPIO_output_def Let_def new_events_def split: option.splits)

lemma led_off_write:
  "GpioOutput (LED_PIN cfg) False \<in> set (new_events s (snd (led_off cfg r s))) \<longleftrightarrow> gpio_initialized s"
  by (simp add: led_off_def GPIO_output_def Let_def new_events_def split: option.splits)

lemma led_off_keeps:
  "same_globals s (snd (led_off cfg r s))
   \<and> motion_detected_time (snd (led_off cfg r s)) = motion_detected_time s
   \<and> clock (snd (led_off cfg r s)) = clock s"
  by (simp add: led_off_def GPIO_output_def Let_def same_globals_def split: option.splits)

lemma cleanup_keeps:
  "same_globals s (snd (cleanup cfg ce s))
   \<and> motion_detected_time (snd (cleanup cfg ce s)) = motion_detected_time s
   \<and> clock (snd (cleanup cfg ce s)) = clock s"
  by (simp add: cleanup_def GPIO_output_def driver_call_def Let_def same_globals_def split: option.splits)




lemma respond_completes:
  assumes "hold_signal e = None"
  obtains s1 p s2 s3 s5 where
    "led_on cfg (led_on_res e) s = (Inr (), s1)"
    "capture_image cfg e s1 = (Inr p, s2)"
    "grows (\<lambda>ev. phase ev = 3) s2 s3"
    "Call ''send_email_alert'' \<in> set (new_events s2 s3) \<longleftrightarrow> \<not> falsy p \<and> email_configured s2"
    "same_globals s2 s3" "motion_detected_time s3 = motion_detected_time s2"
    "clock s3 = clock s2" "led s3 = led s2"
    "led_off cfg (led_off_res e)
       ((emit (Sleep (LED_ON_TIME cfg)) s3)\<lparr> clock := clock s3 + LED_ON_TIME cfg \<rparr>) = (Inr (), s5)"
    "respond cfg e t s = (Inr (), s5\<lparr> motion_detected_time := t \<rparr>)"
proof -
  obtain s1 where 1: "led_on cfg (led_on_res e) s = (Inr (), s1)"
    using led_on_result [of cfg "led_on_res e" s] by (cases "led_on cfg (led_on_res e) s") auto
  obtain p s2 where 2: "capture_image cfg e s1 = (Inr p, s2)"
    using capture_image_result [of cfg e s1]
    by (cases "capture_image cfg e s1"; cases "fst (capture_image cfg e s1)") auto
  obtain s3 where st3: "(if \<not> falsy p
        then (if email_configured s2
              then and_then (send_email_alert e p s2) (\<lambda>_ s. (Inr (), s))
              else (Inr (), s2))
        else (Inr (), s2)) = (Inr (), s3)"
     and st3': "grows (\<lambda>ev. phase ev = 3) s2 s3"
       "Call ''send_email_alert'' \<in> set (new_events s2 s3) \<longleftrightarrow> \<not> falsy p \<and> email_configured s2"
       "same_globals s2 s3" "motion_detected_time s3 = motion_detected_time s2"
       "clock s3 = clock s2" "led s3 = led s2"
    using notify_step [of p s2 e] by blast
  let ?s4 = "(emit (Sleep (LED_ON_TIME cfg)) s3)\<lparr> clock := clock s3 + LED_ON_TIME cfg \<rparr>"
  obtain s5 where 5: "led_off cfg (led_off_res e) ?s4 = (Inr (), s5)"
    using led_off_result [of cfg "led_off_res e" ?s4]
    by (cases "led_off cfg (led_off_res e) ?s4") auto
  have "respond cfg e t s = (Inr (), s5\<lparr> motion_detected_time := t \<rparr>)"
    unfolding respond_def by (simp only: 1 2 st3 5 and_then_Inr assms time_sleep_None)
  with 1 2 st3' 5 show thesis by (rule that)
qed

lemma growsE:
  assumes "grows P s s'"
  obtains evs where "trace s' = trace s @ evs" "list_all P evs" "new_events s s' = evs"
  using assms by (auto simp: grows_def new_events_def)

lemma same_globals_trans: "same_globals s s' \<Longrightarrow> same_globals s' s'' \<Longrightarrow> same_globals s s''"
  by (simp add: same_globals_def)

lemma same_globals_refl [simp]: "same_globals s s"
  by (simp add: same_globals_def)

text \<open>An accepted cycle whose hold is not interrupted.\<close>

lemma respond_uninterrupted:
  assumes "hold_signal e = None"
  obtains a b c d where
    "new_events s (snd (respond cfg e t s)) = a @ b @ c @ Sleep (LED_ON_TIME cfg) # d"
    "list_all (\<lambda>ev. phase ev = 1) a" "Call ''led_on'' \<in> set a"
    "GpioOutput (LED_PIN cfg) True \<in> set a \<longleftrightarrow> gpio_initialized s"
    "list_all (\<lambda>ev. phase ev = 2) b" "Call ''capture_image'' \<in> set b"
    "list_all (\<lambda>ev. phase ev = 3) c"
    "Call ''send_email_alert'' \<in> set c \<longleftrightarrow>
       camera_initialized s \<and> picam2 s \<and> makedirs_res e = None \<and> capture_res e = None
       \<and> email_configured s"
    "list_all (\<lambda>ev. phase ev = 5) d" "Call ''led_off'' \<in> set d"
    "GpioOutput (LED_PIN cfg) False \<in> set d \<longleftrightarrow> gpio_initialized s"
    "fst (respond cfg e t s) = Inr ()"
    "motion_detected_time (snd (respond cfg e t s)) = t"
    "clock (snd (respond cfg e t s)) = clock s + LED_ON_TIME cfg"
    "same_globals s (snd (respond cfg e t s))"
proof -
  obtain s1 p s2 s3 s5 where st:
    "led_on cfg (led_on_res e) s = (Inr (), s1)"
    "capture_image cfg e s1 = (Inr p, s2)"
    "grows (\<lambda>ev. phase ev = 3) s2 s3"
    "Call ''send_email_alert'' \<in> set (new_events s2 s3) \<longleftrightarrow> \<not> falsy p \<and> email_configured s2"
    "same_globals s2 s3" "motion_detected_time s3 = motion_detected_time s2"
    "clock s3 = clock s2" "led s3 = led s2"
    "led_off cfg (led_off_res e)
       ((emit (Sleep (LED_ON_TIME cfg)) s3)\<lparr> clock := clock s3 + LED_ON_TIME cfg \<rparr>) = (Inr (), s5)"
    "respond cfg e t s = (Inr (), s5\<lparr> motion_detected_time := t \<rparr>)"
    using respond_completes [OF assms, of cfg s t] by blast
  let ?s4 = "(emit (Sleep (LED_ON_TIME cfg)) s3)\<lparr> clock := clock s3 + LED_ON_TIME cfg \<rparr>"
  obtain a where a: "trace s1 = trace s @ a" "list_all (\<lambda>ev. phase ev = 1) a" "new_events s s1 = a"
    using led_on_grows [of s cfg "led_on_res e"] st(1) by (auto elim: growsE)
  obtain b where b: "trace s2 = trace s1 @ b" "list_all (\<lambda>ev. phase ev = 2) b" "new_events s1 s2 = b"
    using capture_image_grows [of s1 cfg e] st(2) by (auto elim: growsE)
  obtain c where c: "trace s3 = trace s2 @ c" "list_all (\<lambda>ev. phase ev = 3) c" "new_events s2 s3 = c"
    using st(3) by (auto elim: growsE)
  obtain d where d: "trace s5 = trace ?s4 @ d" "list_all (\<lambda>ev. phase ev = 5) d" "new_events ?s4 s5 = d"
    using led_off_grows [of ?s4 cfg "led_off_res e"] st(9) by (auto elim: growsE)
  have g1: "same_globals s s1" using led_on_globals [of s cfg "led_on_res e"] st(1) by simp
  have g2: "same_globals s1 s2" using capture_image_keeps [of s1 cfg e] st(2) by simp
  have g5: "same_globals ?s4 s5" using led_off_keeps [of ?s4 cfg "led_off_res e"] st(9) by simp
  have p: "p = (if camera_initialized s1 \<and> picam2 s1 \<and> makedirs_res e = None \<and> capture_res e = None
          then Some (path_join (SAVE_DIR cfg) (''motion_'' @ stamp e @ ''.jpg'')) else None)"
    using capture_image_path [of cfg e s1] st(2) by simp
  have fp: "\<not> falsy p \<longleftrightarrow> camera_initialized s \<and> picam2 s \<and> makedirs_res e = None \<and> capture_res e = None"
    using g1 by (simp add: p falsy_def same_globals_def path_join_nonempty)
  show thesis
  proof (rule that [of a b c d])
    show "new_events s (snd (respond cfg e t s)) = a @ b @ c @ Sleep (LED_ON_TIME cfg) # d"
      by (simp add: st(10) new_events_def a(1) b(1) c(1) d(1))
    show "Call ''led_on'' \<in> set a"
      using led_on_call [of s cfg "led_on_res e"] by (simp add: st(1) a(3))
    show "GpioOutput (LED_PIN cfg) True \<in> set a \<longleftrightarrow> gpio_initialized s"
      using led_on_write [of cfg s "led_on_res e"] by (simp add: st(1) a(3))
    show "Call ''capture_image'' \<in> set b"
      using capture_image_call [of s1 cfg e] by (simp add: st(2) b(3))
    show "Call ''send_email_alert'' \<in> set c \<longleftrightarrow>
       camera_initialized s \<and> picam2 s \<and> makedirs_res e = None \<and> capture_res e = None
       \<and> email_configured s"
      using st(4) g1 g2 by (simp add: c(3) fp same_globals_def)
    show "Call ''led_off'' \<in> set d"
      using led_off_call [of ?s4 cfg "led_off_res e"] by (simp add: st(9) d(3))
    show "GpioOutput (LED_PIN cfg) False \<in> set d \<longleftrightarrow> gpio_initialized s"
      using led_off_write [of cfg ?s4 "led_off_res e"] g1 g2 st(5)
      by (simp add: st(9) d(3) same_globals_def)
    show "fst (respond cfg e t s) = Inr ()" by (simp add: st(10))
    show "motion_detected_time (snd (respond cfg e t s)) = t" by (simp add: st(10))
    show "clock (snd (respond cfg e t s)) = clock s + LED_ON_TIME cfg"
    proof -
      have "clock s1 = clock s"
        using led_on_keeps [of cfg "led_on_res e" s] by (simp add: st(1))
      moreover have "clock s2 = clock s1"
        using capture_image_keeps [of s1 cfg e] by (simp add: st(2))
      moreover have "clock s5 = clock ?s4"
        using led_off_keeps [of ?s4 cfg "led_off_res e"] by (simp only: st(9) snd_conv)
      ultimately show ?thesis by (simp add: st(10) st(7))
    qed
    show "same_globals s (snd (respond cfg e t s))"
      using g1 g2 st(5) g5 by (simp add: st(10) same_globals_def)
  qed (rule a b c d)+
qed

lemma range_MAX_RETRIES: "[0 ..< MAX_RETRIES] = [0, 1, 2, 3, 4]"
  by (simp add: MAX_RETRIES_def upt_conv_Cons)

lemma setup_gpio_first_try:
  "outcome 0 = None \<Longrightarrow>
   setup_gpio cfg outcome s =
     (Inr True, s\<lparr> trace := trace s @ [ForceRelease, GpioCleanup, GpioSetup, GpioOutput (LED_PIN cfg) False],
        led := False, gpio_initialized := True \<rparr>)"
  by (simp add: setup_gpio_def range_MAX_RETRIES gpio_attempt_def driver_call_def GPIO_output_def emit_def)

lemma respond_time:
  assumes "hold_signal e = None"
  shows "fst (respond cfg e t s) = Inr ()"
    and "motion_detected_time (snd (respond cfg e t s)) = t"
    and "clock (snd (respond cfg e t s)) = clock s + LED_ON_TIME cfg"
    and "same_globals s (snd (respond cfg e t s))"
  by (rule respond_uninterrupted [OF assms, of s cfg t]; assumption)+

lemma time_sleep_fst:
  "fst (time_sleep cfg d sig s) = (case sig of None \<Rightarrow> Inr () | Some ce \<Rightarrow> Inl (SystemExit 0))"
  by (cases sig) (simp_all add: time_sleep_Some)

lemma time_sleep_keeps:
  "same_globals s (snd (time_sleep cfg d sig s))
   \<and> motion_detected_time (snd (time_sleep cfg d sig s)) = motion_detected_time s"
proof (cases sig)
  case None
  then show ?thesis by (simp add: same_globals_def)
next
  case (Some ce)
  then show ?thesis
    using cleanup_keeps [of "emit (Print ''Received interrupt signal'') (emit (Sleep d) s)" cfg ce]
    by (simp add: time_sleep_def Let_def signal_handler_snd same_globals_def)
qed

lemma except_Exception_pass:
  "fst m = Inr v \<or> fst m = Inl (SystemExit c) \<Longrightarrow> except_Exception m h = m"
  by (cases m) (auto simp: except_Exception_def)

lemma respond_prefix:
  obtains s1 p s2 s3 where
    "led_on cfg (led_on_res e) s = (Inr (), s1)"
    "capture_image cfg e s1 = (Inr p, s2)"
    "grows (\<lambda>ev. phase ev = 3) s2 s3"
    "Call ''send_email_alert'' \<in> set (new_events s2 s3) \<longleftrightarrow> \<not> falsy p \<and> email_configured s2"
    "same_globals s2 s3" "motion_detected_time s3 = motion_detected_time s2"
    "respond cfg e t s =
       and_then (time_sleep cfg (LED_ON_TIME cfg) (hold_signal e) s3) (\<lambda>_ s.
       and_then (led_off cfg (led_off_res e) s) (\<lambda>_ s.
       (Inr (), s\<lparr> motion_detected_time := t \<rparr>)))"
    "falsy p \<or> \<not> email_configured s2 \<longrightarrow> new_events s2 s3 = []"
proof -
  obtain s1 where 1: "led_on cfg (led_on_res e) s = (Inr (), s1)"
    using led_on_result [of cfg "led_on_res e" s] by (cases "led_on cfg (led_on_res e) s") auto
  obtain p s2 where 2: "capture_image cfg e s1 = (Inr p, s2)"
    using capture_image_result [of cfg e s1]
    by (cases "capture_image cfg e s1"; cases "fst (capture_image cfg e s1)") auto
  obtain s3 where st3: "(if \<not> falsy p
        then (if email_configured s2
              then and_then (send_email_alert e p s2) (\<lambda>_ s. (Inr (), s))
              else (Inr (), s2))
        else (Inr (), s2)) = (Inr (), s3)"
     and st3': "grows (\<lambda>ev. phase ev = 3) s2 s3"
       "Call ''send_email_alert'' \<in> set (new_events s2 s3) \<longleftrightarrow> \<not> falsy p \<and> email_configured s2"
       "same_globals s2 s3" "motion_detected_time s3 = motion_detected_time s2"
       "falsy p \<or> \<not> email_configured s2 \<longrightarrow> new_events s2 s3 = []"
    using notify_step [of p s2 e] by blast
  have r: "respond cfg e t s =
       and_then (time_sleep cfg (LED_ON_TIME cfg) (hold_signal e) s3) (\<lambda>_ s.
       and_then (led_off cfg (led_off_res e) s) (\<lambda>_ s.
       (Inr (), s\<lparr> motion_detected_time := t \<rparr>)))"
    unfolding respond_def by (simp only: 1 2 st3 and_then_Inr)
  show thesis by (rule that [OF 1 2 st3'(1-4) r st3'(5)])
qed

text \<open>What an accepted cycle appends to the trace, interrupted or not.\<close>

lemma respond_general:
  obtains a b c d where
    "new_events s (snd (respond cfg e t s)) = a @ b @ c @ d"
    "list_all (\<lambda>ev. phase ev = 1) a" "Call ''led_on'' \<in> set a"
    "GpioOutput (LED_PIN cfg) True \<in> set a \<longleftrightarrow> gpio_initialized s"
    "list_all (\<lambda>ev. phase ev = 2) b" "Call ''capture_image'' \<in> set b"
    "list_all (\<lambda>ev. phase ev = 3) c"
    "Call ''send_email_alert'' \<in> set c \<longleftrightarrow>
       camera_initialized s \<and> picam2 s \<and> makedirs_res e = None \<and> capture_res e = None
       \<and> email_configured s"
    "c \<noteq> [] \<Longrightarrow> camera_initialized s \<and> picam2 s \<and> makedirs_res e = None
       \<and> capture_res e = None \<and> email_configured s"
    "list_all (\<lambda>ev. phase ev = 4 \<or> phase ev = 5 \<or> phase ev = 6) d"
    "trace (snd (respond cfg e t s)) = trace s @ a @ b @ c @ d"
    "same_globals s (snd (respond cfg e t s))"
    "fst (respond cfg e t s) = (case hold_signal e of None \<Rightarrow> Inr () | Some ce \<Rightarrow> Inl (SystemExit 0))"
    "hold_signal e \<noteq> None \<Longrightarrow>
       motion_detected_time (snd (respond cfg e t s)) = motion_detected_time s"
proof -
  obtain s1 p s2 s3 where st:
    "led_on cfg (led_on_res e) s = (Inr (), s1)"
    "capture_image cfg e s1 = (Inr p, s2)"
    "grows (\<lambda>ev. phase ev = 3) s2 s3"
    "Call ''send_email_alert'' \<in> set (new_events s2 s3) \<longleftrightarrow> \<not> falsy p \<and> email_configured s2"
    "same_globals s2 s3" "motion_detected_time s3 = motion_detected_time s2"
    "respond cfg e t s =
       and_then (time_sleep cfg (LED_ON_TIME cfg) (hold_signal e) s3) (\<lambda>_ s.
       and_then (led_off cfg (led_off_res e) s) (\<lambda>_ s.
       (Inr (), s\<lparr> motion_detected_time := t \<rparr>)))"
    "falsy p \<or> \<not> email_configured s2 \<longrightarrow> new_events s2 s3 = []"
    using respond_prefix [of cfg e s t] by blast
  let ?P = "\<lambda>ev. phase ev = 4 \<or> phase ev = 5 \<or> phase ev = 6"
  let ?r = "respond cfg e t s"
  obtain a where a: "trace s1 = trace s @ a" "list_all (\<lambda>ev. phase ev = 1) a" "new_events s s1 = a"
    using led_on_grows [of s cfg "led_on_res e"] st(1) by (auto elim: growsE)
  obtain b where b: "trace s2 = trace s1 @ b" "list_all (\<lambda>ev. phase ev = 2) b" "new_events s1 s2 = b"
    using capture_image_grows [of s1 cfg e] st(2) by (auto elim: growsE)
  obtain c where c: "trace s3 = trace s2 @ c" "list_all (\<lambda>ev. phase ev = 3) c" "new_events s2 s3 = c"
    using st(3) by (auto elim: growsE)
  have g1: "same_globals s s1" using led_on_globals [of s cfg "led_on_res e"] st(1) by simp
  have g2: "same_globals s1 s2" using capture_image_keeps [of s1 cfg e] st(2) by simp
  have m12: "motion_detected_time s1 = motion_detected_time s" "motion_detected_time s2 = motion_detected_time s1"
    using led_on_keeps [of cfg "led_on_res e" s] capture_image_keeps [of s1 cfg e] by (simp_all add: st)
  have p: "p = (if camera_initialized s1 \<and> picam2 s1 \<and> makedirs_res e = None \<and> capture_res e = None
          then Some (path_join (SAVE_DIR cfg) (''motion_'' @ stamp e @ ''.jpg'')) else None)"
    using capture_image_path [of cfg e s1] st(2) by simp
  have fp: "\<not> falsy p \<longleftrightarrow> camera_initialized s \<and> picam2 s \<and> makedirs_res e = None \<and> capture_res e = None"
    using g1 by (simp add: p falsy_def same_globals_def path_join_nonempty)
  have tail: "grows ?P s3 (snd ?r) \<and> same_globals s3 (snd ?r)
      \<and> fst ?r = (case hold_signal e of None \<Rightarrow> Inr () | Some ce \<Rightarrow> Inl (SystemExit 0))
      \<and> (hold_signal e \<noteq> None \<longrightarrow> motion_detected_time (snd ?r) = motion_detected_time s3)"
  proof (cases "hold_signal e")
    case None
    let ?s4 = "(emit (Sleep (LED_ON_TIME cfg)) s3)\<lparr> clock := clock s3 + LED_ON_TIME cfg \<rparr>"
    obtain s5 where 5: "led_off cfg (led_off_res e) ?s4 = (Inr (), s5)"
      using led_off_result [of cfg "led_off_res e" ?s4]
      by (cases "led_off cfg (led_off_res e) ?s4") auto
    have r: "?r = (Inr (), s5\<lparr> motion_detected_time := t \<rparr>)"
      by (simp only: st(7) None time_sleep_None and_then_Inr 5)
    have "grows (\<lambda>ev. phase ev = 5) ?s4 s5"
      using led_off_grows [of ?s4 cfg "led_off_res e"] by (simp only: 5 snd_conv)
    then have "grows ?P ?s4 s5" by (rule grows_mono) simp
    then have "grows ?P s3 s5" by (auto simp: grows_def)
    then have "grows ?P s3 (s5\<lparr> motion_detected_time := t \<rparr>)" by (simp add: grows_def)
    moreover have "same_globals ?s4 s5"
      using led_off_keeps [of ?s4 cfg "led_off_res e"] by (simp only: 5 snd_conv)
    ultimately show ?thesis using None by (simp add: r same_globals_def)
  next
    case (Some ce)
    have f: "fst (time_sleep cfg (LED_ON_TIME cfg) (Some ce) s3) = Inl (SystemExit 0)"
      by (rule time_sleep_Some)
    then have r: "?r = time_sleep cfg (LED_ON_TIME cfg) (Some ce) s3"
      by (cases "time_sleep cfg (LED_ON_TIME cfg) (Some ce) s3") (simp add: st(7) Some)
    show ?thesis
      using time_sleep_grows [of s3 cfg "LED_ON_TIME cfg" "Some ce"]
        time_sleep_keeps [of s3 cfg "LED_ON_TIME cfg" "Some ce"] f
      by (simp add: r Some)
  qed
  then obtain d where d: "trace (snd ?r) = trace s3 @ d" "list_all ?P d"
    by (auto simp: grows_def)
  show thesis
  proof (rule that [of a b c d])
    show "trace (snd ?r) = trace s @ a @ b @ c @ d"
      by (simp add: d(1) c(1) b(1) a(1))
    then show "new_events s (snd ?r) = a @ b @ c @ d"
      by (simp add: new_events_def)
    show "Call ''led_on'' \<in> set a"
      using led_on_call [of s cfg "led_on_res e"] by (simp add: st(1) a(3))
    show "GpioOutput (LED_PIN cfg) True \<in> set a \<longleftrightarrow> gpio_initialized s"
      using led_on_write [of cfg s "led_on_res e"] by (simp add: st(1) a(3))
    show "Call ''capture_image'' \<in> set b"
      using capture_image_call [of s1 cfg e] by (simp add: st(2) b(3))
    show "Call ''send_email_alert'' \<in> set c \<longleftrightarrow>
       camera_initialized s \<and> picam2 s \<and> makedirs_res e = None \<and> capture_res e = None
       \<and> email_configured s"
      using st(4) g1 g2 by (simp add: c(3) fp same_globals_def)
    show "c \<noteq> [] \<Longrightarrow> camera_initialized s \<and> picam2 s \<and> makedirs_res e = None
       \<and> capture_res e = None \<and> email_configured s"
      using st(8) g1 g2 by (auto simp: c(3) fp same_globals_def)
    show "same_globals s (snd ?r)"
      using g1 g2 st(5) tail by (simp add: same_globals_def)
    show "fst ?r = (case hold_signal e of None \<Rightarrow> Inr () | Some ce \<Rightarrow> Inl (SystemExit 0))"
      using tail by simp
    show "hold_signal e \<noteq> None \<Longrightarrow> motion_detected_time (snd ?r) = motion_detected_time s"
      using tail st(6) m12 by simp
  qed (rule a b c d)+
qed

lemma loop_iteration_raise:
  "pir e = Inl msg \<Longrightarrow>
   loop_iteration cfg e s =
     time_sleep cfg 1 (pause_signal e)
       (emit (Print ''Error in main loop'') (emit (GpioInput (PIR_PIN cfg)) s))"
  by (simp add: loop_iteration_def poll_def GPIO_input_def)

lemma loop_iteration_inactive:
  "pir e = Inr False \<Longrightarrow>
   loop_iteration cfg e s =
     time_sleep cfg (1 / 10) (poll_signal e) (emit (GpioInput (PIR_PIN cfg)) s)"
  using time_sleep_fst [of cfg "1 / 10" "poll_signal e" "emit (GpioInput (PIR_PIN cfg)) s"]
  by (auto simp: loop_iteration_def poll_def GPIO_input_def
      intro!: except_Exception_pass split: option.splits)

lemma loop_iteration_cooldown:
  "pir e = Inr True \<Longrightarrow> \<not> time_now e - motion_detected_time s > COOLDOWN_TIME cfg \<Longrightarrow>
   loop_iteration cfg e s =
     time_sleep cfg (1 / 10) (poll_signal e)
       ((emit (GpioInput (PIR_PIN cfg)) s)\<lparr> clock := time_now e \<rparr>)"
  using time_sleep_fst [of cfg "1 / 10" "poll_signal e"
      "(emit (GpioInput (PIR_PIN cfg)) s)\<lparr> clock := time_now e \<rparr>"]
  by (auto simp: loop_iteration_def poll_def GPIO_input_def Let_def
      intro!: except_Exception_pass split: option.splits)

lemma and_then_fst_cases:
  "fst (and_then m f) = Inl ex \<Longrightarrow> fst m = Inl ex \<or> (\<exists>v. fst m = Inr v \<and> fst (f v (snd m)) = Inl ex)"
  by (cases m; cases "fst m") (auto simp: and_then_def)

lemma loop_iteration_accept:
  assumes "pir e = Inr True" "time_now e - motion_detected_time s > COOLDOWN_TIME cfg"
  shows "loop_iteration cfg e s =
     and_then (respond cfg e (time_now e) ((emit (GpioInput (PIR_PIN cfg)) s)\<lparr> clock := time_now e \<rparr>))
       (\<lambda>_ s. time_sleep cfg (1 / 10) (poll_signal e) s)"
proof -
  let ?s1 = "(emit (GpioInput (PIR_PIN cfg)) s)\<lparr> clock := time_now e \<rparr>"
  let ?m = "and_then (respond cfg e (time_now e) ?s1) (\<lambda>_ s. time_sleep cfg (1 / 10) (poll_signal e) s)"
  have p: "poll cfg e s = ?m"
    using assms by (simp add: poll_def GPIO_input_def Let_def)
  have r: "fst (respond cfg e (time_now e) ?s1) =
      (case hold_signal e of None \<Rightarrow> Inr () | Some ce \<Rightarrow> Inl (SystemExit 0))"
    by (rule respond_general [of ?s1 cfg e "time_now e"])
  have "fst ?m = Inr () \<or> fst ?m = Inl (SystemExit 0)"
  proof (cases "fst ?m")
    case (Inl ex)
    from and_then_fst_cases [OF Inl] show ?thesis
      using r time_sleep_fst [of cfg "1 / 10" "poll_signal e"] Inl
      by (auto split: option.splits)
  next
    case (Inr v)
    then show ?thesis by simp
  qed
  then have "except_Exception ?m
       (\<lambda>ex s. time_sleep cfg 1 (pause_signal e) (emit (Print ''Error in main loop'') s)) = ?m"
    by (rule except_Exception_pass)
  then show ?thesis by (simp add: loop_iteration_def p)
qed

lemma grows_clock [simp]: "grows P (s\<lparr> clock := t \<rparr>) s' = grows P s s'"
  by (simp add: grows_def)

lemma new_events_clock [simp]: "new_events (s\<lparr> clock := t \<rparr>) s' = new_events s s'"
  by (simp add: new_events_def)

lemma same_globals_clock [simp]: "same_globals (s\<lparr> clock := t \<rparr>) s' = same_globals s s'"
  by (simp add: same_globals_def)

lemma same_globals_emit [simp]: "same_globals (emit ev s) s' = same_globals s s'"
  by (simp add: same_globals_def)

lemma loop_iteration_ignored:
  assumes "\<not> (pir e = Inr True \<and> time_now e - motion_detected_time s > COOLDOWN_TIME cfg)"
  shows "grows (\<lambda>ev. phase ev = 0 \<or> phase ev = 4 \<or> phase ev = 5 \<or> phase ev = 6) s
           (snd (loop_iteration cfg e s))"
    and "same_globals s (snd (loop_iteration cfg e s))"
    and "motion_detected_time (snd (loop_iteration cfg e s)) = motion_detected_time s"
proof -
  let ?P = "\<lambda>ev. phase ev = 0 \<or> phase ev = 4 \<or> phase ev = 5 \<or> phase ev = 6"
  let ?s0 = "emit (GpioInput (PIR_PIN cfg)) s"
  have sl: "grows ?P s0 (snd (time_sleep cfg d sig s0))" for s0 d sig
    by (rule grows_mono [OF time_sleep_grows]) auto
  have "grows ?P s (snd (loop_iteration cfg e s))
      \<and> same_globals s (snd (loop_iteration cfg e s))
      \<and> motion_detected_time (snd (loop_iteration cfg e s)) = motion_detected_time s"
  proof (cases "pir e")
    case (Inl msg)
    let ?s1 = "emit (Print ''Error in main loop'') ?s0"
    have "grows ?P ?s1 (snd (time_sleep cfg 1 (pause_signal e) ?s1))" by (rule sl)
    then have "grows ?P ?s0 (snd (time_sleep cfg 1 (pause_signal e) ?s1))"
      by (rule grows_emit_left) simp
    then have "grows ?P s (snd (time_sleep cfg 1 (pause_signal e) ?s1))"
      by (rule grows_emit_left) simp
    then show ?thesis
      using time_sleep_keeps [of ?s1 cfg 1 "pause_signal e"]
      by (simp add: loop_iteration_raise [OF Inl])
  next
    case (Inr level)
    show ?thesis
    proof (cases level)
      case False
      with Inr have i: "pir e = Inr False" by simp
      have "grows ?P ?s0 (snd (time_sleep cfg (1 / 10) (poll_signal e) ?s0))" by (rule sl)
      then have "grows ?P s (snd (time_sleep cfg (1 / 10) (poll_signal e) ?s0))"
        by (rule grows_emit_left) simp
      then show ?thesis
        using time_sleep_keeps [of ?s0 cfg "1 / 10" "poll_signal e"]
        by (simp add: loop_iteration_inactive [OF i])
    next
      case True
      with Inr have i: "pir e = Inr True" by simp
      with assms have c: "\<not> time_now e - motion_detected_time s > COOLDOWN_TIME cfg" by simp
      let ?s1 = "?s0\<lparr> clock := time_now e \<rparr>"
      have "grows ?P ?s1 (snd (time_sleep cfg (1 / 10) (poll_signal e) ?s1))" by (rule sl)
      then have "grows ?P ?s0 (snd (time_sleep cfg (1 / 10) (poll_signal e) ?s1))" by simp
      then have "grows ?P s (snd (time_sleep cfg (1 / 10) (poll_signal e) ?s1))"
        by (rule grows_emit_left) simp
      then show ?thesis
        using time_sleep_keeps [of ?s1 cfg "1 / 10" "poll_signal e"]
        by (simp add: loop_iteration_cooldown [OF i c])
    qed
  qed
  then show "grows ?P s (snd (loop_iteration cfg e s))"
    and "same_globals s (snd (loop_iteration cfg e s))"
    and "motion_detected_time (snd (loop_iteration cfg e s)) = motion_detected_time s"
    by simp_all
qed

lemma loop_iteration_accepted:
  assumes "pir e = Inr True" "time_now e - motion_detected_time s > COOLDOWN_TIME cfg"
  obtains a b c d where
    "new_events s (snd (loop_iteration cfg e s)) = GpioInput (PIR_PIN cfg) # a @ b @ c @ d"
    "list_all (\<lambda>ev. phase ev = 1) a" "Call ''led_on'' \<in> set a"
    "GpioOutput (LED_PIN cfg) True \<in> set a \<longleftrightarrow> gpio_initialized s"
    "list_all (\<lambda>ev. phase ev = 2) b" "Call ''capture_image'' \<in> set b"
    "list_all (\<lambda>ev. phase ev = 3) c"
    "Call ''send_email_alert'' \<in> set c \<longleftrightarrow>
       camera_initialized s \<and> picam2 s \<and> makedirs_res e = None \<and> capture_res e = None
       \<and> email_configured s"
    "c \<noteq> [] \<Longrightarrow> camera_initialized s \<and> picam2 s \<and> makedirs_res e = None
       \<and> capture_res e = None \<and> email_configured s"
    "list_all (\<lambda>ev. phase ev = 4 \<or> phase ev = 5 \<or> phase ev = 6) d"
    "same_globals s (snd (loop_iteration cfg e s))"
    "trace (snd (loop_iteration cfg e s)) = trace s @ GpioInput (PIR_PIN cfg) # a @ b @ c @ d"
proof -
  let ?s1 = "(emit (GpioInput (PIR_PIN cfg)) s)\<lparr> clock := time_now e \<rparr>"
  let ?r = "respond cfg e (time_now e) ?s1"
  let ?P = "\<lambda>ev. phase ev = 4 \<or> phase ev = 5 \<or> phase ev = 6"
  note li = loop_iteration_accept [OF assms]
  show thesis
  proof (rule respond_general [of ?s1 cfg e "time_now e"])
  fix a b c d
  assume r0:
    "new_events ?s1 (snd ?r) = a @ b @ c @ d"
    "list_all (\<lambda>ev. phase ev = 1) a" "Call ''led_on'' \<in> set a"
    "GpioOutput (LED_PIN cfg) True \<in> set a \<longleftrightarrow> gpio_initialized ?s1"
    "list_all (\<lambda>ev. phase ev = 2) b" "Call ''capture_image'' \<in> set b"
    "list_all (\<lambda>ev. phase ev = 3) c"
    "Call ''send_email_alert'' \<in> set c \<longleftrightarrow>
       camera_initialized ?s1 \<and> picam2 ?s1 \<and> makedirs_res e = None \<and> capture_res e = None
       \<and> email_configured ?s1"
    "c \<noteq> [] \<Longrightarrow> camera_initialized ?s1 \<and> picam2 ?s1 \<and> makedirs_res e = None
       \<and> capture_res e = None \<and> email_configured ?s1"
    "list_all ?P d"
    "trace (snd ?r) = trace ?s1 @ a @ b @ c @ d"
    "same_globals ?s1 (snd ?r)"
    "fst ?r = (case hold_signal e of None \<Rightarrow> Inr () | Some ce \<Rightarrow> Inl (SystemExit 0))"
    "hold_signal e \<noteq> None \<Longrightarrow>
       motion_detected_time (snd ?r) = motion_detected_time ?s1"
  note r = r0(2-12)
  have tail: "grows ?P (snd ?r) (snd (loop_iteration cfg e s))
     \<and> same_globals (snd ?r) (snd (loop_iteration cfg e s))"
  proof (cases "fst ?r")
    case (Inl ex)
    then have "loop_iteration cfg e s = ?r"
      by (cases ?r) (simp add: li)
    then show ?thesis by simp
  next
    case (Inr v)
    then have "loop_iteration cfg e s = time_sleep cfg (1 / 10) (poll_signal e) (snd ?r)"
      by (cases ?r) (simp add: li)
    then show ?thesis
      using time_sleep_grows [of "snd ?r" cfg "1 / 10" "poll_signal e"]
        time_sleep_keeps [of "snd ?r" cfg "1 / 10" "poll_signal e"] by simp
  qed
  then obtain d' where d': "trace (snd (loop_iteration cfg e s)) = trace (snd ?r) @ d'" "list_all ?P d'"
    by (auto simp: grows_def)
  show thesis
  proof (rule that [of a b c "d @ d'"])
    show "new_events s (snd (loop_iteration cfg e s)) = GpioInput (PIR_PIN cfg) # a @ b @ c @ d @ d'"
      by (simp add: new_events_def d'(1) r(10))
    show "trace (snd (loop_iteration cfg e s)) = trace s @ GpioInput (PIR_PIN cfg) # a @ b @ c @ d @ d'"
      by (simp add: d'(1) r(10))
    show "list_all ?P (d @ d')" using r(9) d'(2) by simp
    show "same_globals s (snd (loop_iteration cfg e s))"
      using r(11) tail by (simp add: same_globals_def)
    show "GpioOutput (LED_PIN cfg) True \<in> set a \<longleftrightarrow> gpio_initialized s" using r(3) by simp
    show "Call ''send_email_alert'' \<in> set c \<longleftrightarrow>
       camera_initialized s \<and> picam2 s \<and> makedirs_res e = None \<and> capture_res e = None
       \<and> email_configured s" using r(7) by simp
    show "c \<noteq> [] \<Longrightarrow> camera_initialized s \<and> picam2 s \<and> makedirs_res e = None
       \<and> capture_res e = None \<and> email_configured s" using r(8) by simp
  qed (rule r)+
  qed
qed

lemma phase_mem: "list_all (\<lambda>ev. P (phase ev)) evs \<Longrightarrow> ev \<in> set evs \<Longrightarrow> P (phase ev)"
  by (simp add: list_all_iff)

lemma loop_iteration_accepted_events:
  assumes "pir e = Inr True" "time_now e - motion_detected_time s > COOLDOWN_TIME cfg"
  shows "Call ''led_on'' \<in> set (new_events s (snd (loop_iteration cfg e s)))"
    and "Call ''capture_image'' \<in> set (new_events s (snd (loop_iteration cfg e s)))"
    and "GpioOutput (LED_PIN cfg) True \<in> set (new_events s (snd (loop_iteration cfg e s)))
          \<longleftrightarrow> gpio_initialized s"
    and "Call ''send_email_alert'' \<in> set (new_events s (snd (loop_iteration cfg e s))) \<longleftrightarrow>
       camera_initialized s \<and> picam2 s \<and> makedirs_res e = None \<and> capture_res e = None
       \<and> email_configured s"
proof -
  let ?N = "new_events s (snd (loop_iteration cfg e s))"
  have "Call ''led_on'' \<in> set ?N \<and> Call ''capture_image'' \<in> set ?N
    \<and> (GpioOutput (LED_PIN cfg) True \<in> set ?N \<longleftrightarrow> gpio_initialized s)
    \<and> (Call ''send_email_alert'' \<in> set ?N \<longleftrightarrow>
       camera_initialized s \<and> picam2 s \<and> makedirs_res e = None \<and> capture_res e = None
       \<and> email_configured s)"
  proof (rule loop_iteration_accepted [OF assms])
    fix a b c d
    assume r: "?N = GpioInput (PIR_PIN cfg) # a @ b @ c @ d"
      "list_all (\<lambda>ev. phase ev = 1) a" "Call ''led_on'' \<in> set a"
      "GpioOutput (LED_PIN cfg) True \<in> set a \<longleftrightarrow> gpio_initialized s"
      "list_all (\<lambda>ev. phase ev = 2) b" "Call ''capture_image'' \<in> set b"
      "list_all (\<lambda>ev. phase ev = 3) c"
      "Call ''send_email_alert'' \<in> set c \<longleftrightarrow>
         camera_initialized s \<and> picam2 s \<and> makedirs_res e = None \<and> capture_res e = None
         \<and> email_configured s"
      "list_all (\<lambda>ev. phase ev = 4 \<or> phase ev = 5 \<or> phase ev = 6) d"
    have na: "ev \<in> set a \<Longrightarrow> phase ev = 1" for ev using phase_mem [OF r(2)] .
    have nb: "ev \<in> set b \<Longrightarrow> phase ev = 2" for ev using phase_mem [OF r(5)] .
    have nc: "ev \<in> set c \<Longrightarrow> phase ev = 3" for ev using phase_mem [OF r(7)] .
    have nd: "ev \<in> set d \<Longrightarrow> phase ev = 4 \<or> phase ev = 5 \<or> phase ev = 6" for ev
      using phase_mem [OF r(9)] .
    have 1: "GpioOutput (LED_PIN cfg) True \<in> set ?N \<longleftrightarrow> GpioOutput (LED_PIN cfg) True \<in> set a"
      using nb [of "GpioOutput (LED_PIN cfg) True"] nc [of "GpioOutput (LED_PIN cfg) True"]
        nd [of "GpioOutput (LED_PIN cfg) True"] by (auto simp: r(1))
    have 2: "Call ''send_email_alert'' \<in> set ?N \<longleftrightarrow> Call ''send_email_alert'' \<in> set c"
      using na [of "Call ''send_email_alert''"] nb [of "Call ''send_email_alert''"]
        nd [of "Call ''send_email_alert''"] by (auto simp: r(1))
    show ?thesis
      using r(3) r(6) by (simp add: 1 2 r(4) r(8)) (simp add: r(1))
  qed
  then show "Call ''led_on'' \<in> set ?N" and "Call ''capture_image'' \<in> set ?N"
    and "GpioOutput (LED_PIN cfg) True \<in> set ?N \<longleftrightarrow> gpio_initialized s"
    and "Call ''send_email_alert'' \<in> set ?N \<longleftrightarrow>
       camera_initialized s \<and> picam2 s \<and> makedirs_res e = None \<and> capture_res e = None
       \<and> email_configured s"
    by simp_all
qed

lemma loop_iteration_ignored_events:
  assumes "\<not> (pir e = Inr True \<and> time_now e - motion_detected_time s > COOLDOWN_TIME cfg)"
  shows "list_all (\<lambda>ev. phase ev \<noteq> 1 \<and> phase ev \<noteq> 2 \<and> phase ev \<noteq> 3)
           (new_events s (snd (loop_iteration cfg e s)))"
proof -
  have "list_all (\<lambda>ev. phase ev = 0 \<or> phase ev = 4 \<or> phase ev = 5 \<or> phase ev = 6)
           (new_events s (snd (loop_iteration cfg e s)))"
    by (rule grows_new_events [OF loop_iteration_ignored(1) [OF assms]])
  then show ?thesis by (rule list.pred_mono_strong) auto
qed

lemma respond_interrupted:
  assumes "hold_signal e \<noteq> None"
  shows "fst (respond cfg e t s) = Inl (SystemExit 0)"
    and "motion_detected_time (snd (respond cfg e t s)) = motion_detected_time s"
proof -
  have "fst (respond cfg e t s) = Inl (SystemExit 0)
      \<and> motion_detected_time (snd (respond cfg e t s)) = motion_detected_time s"
  proof (rule respond_general [of s cfg e t])
    assume "fst (respond cfg e t s) =
        (case hold_signal e of None \<Rightarrow> Inr () | Some ce \<Rightarrow> Inl (SystemExit 0))"
      "hold_signal e \<noteq> None \<Longrightarrow>
         motion_detected_time (snd (respond cfg e t s)) = motion_detected_time s"
    then show ?thesis using assms by (auto split: option.splits)
  qed
  then show "fst (respond cfg e t s) = Inl (SystemExit 0)"
    and "motion_detected_time (snd (respond cfg e t s)) = motion_detected_time s"
    by simp_all
qed

lemma sorted_const: "(\<And>x. x \<in> set xs \<Longrightarrow> f x = (k::nat)) \<Longrightarrow> sorted (map f xs)"
  by (induction xs) auto

lemma respond_order:
  assumes "hold_signal e = None"
  shows "sorted (map phase (new_events s (snd (respond cfg e t s))))
    \<and> Call ''led_on'' \<in> set (new_events s (snd (respond cfg e t s)))
    \<and> Call ''capture_image'' \<in> set (new_events s (snd (respond cfg e t s)))
    \<and> (Call ''send_email_alert'' \<in> set (new_events s (snd (respond cfg e t s))) \<longleftrightarrow>
         camera_initialized s \<and> picam2 s \<and> makedirs_res e = None \<and> capture_res e = None
         \<and> email_configured s)
    \<and> filter (\<lambda>ev. phase ev = 4) (new_events s (snd (respond cfg e t s)))
         = [Sleep (LED_ON_TIME cfg)]
    \<and> Call ''led_off'' \<in> set (new_events s (snd (respond cfg e t s)))
    \<and> (gpio_initialized s \<longrightarrow>
         GpioOutput (LED_PIN cfg) True \<in> set (new_events s (snd (respond cfg e t s)))
         \<and> GpioOutput (LED_PIN cfg) False \<in> set (new_events s (snd (respond cfg e t s))))"
proof (rule respond_uninterrupted [OF assms, of s cfg t])
  fix a b c d
  let ?N = "new_events s (snd (respond cfg e t s))"
  assume r: "?N = a @ b @ c @ Sleep (LED_ON_TIME cfg) # d"
    "list_all (\<lambda>ev. phase ev = 1) a" "Call ''led_on'' \<in> set a"
    "GpioOutput (LED_PIN cfg) True \<in> set a \<longleftrightarrow> gpio_initialized s"
    "list_all (\<lambda>ev. phase ev = 2) b" "Call ''capture_image'' \<in> set b"
    "list_all (\<lambda>ev. phase ev = 3) c"
    "Call ''send_email_alert'' \<in> set c \<longleftrightarrow>
       camera_initialized s \<and> picam2 s \<and> makedirs_res e = None \<and> capture_res e = None
       \<and> email_configured s"
    "list_all (\<lambda>ev. phase ev = 5) d" "Call ''led_off'' \<in> set d"
    "GpioOutput (LED_PIN cfg) False \<in> set d \<longleftrightarrow> gpio_initialized s"
  have na: "ev \<in> set a \<Longrightarrow> phase ev = 1" for ev using phase_mem [OF r(2)] .
  have nb: "ev \<in> set b \<Longrightarrow> phase ev = 2" for ev using phase_mem [OF r(5)] .
  have nc: "ev \<in> set c \<Longrightarrow> phase ev = 3" for ev using phase_mem [OF r(7)] .
  have nd: "ev \<in> set d \<Longrightarrow> phase ev = 5" for ev using phase_mem [OF r(9)] .
  have srt: "sorted (map phase ?N)"
    using sorted_const [of a phase 1] sorted_const [of b phase 2] sorted_const [of c phase 3]
      sorted_const [of d phase 5] na nb nc nd
    by (auto simp: r(1) sorted_append)
  have f4: "filter (\<lambda>ev. phase ev = 4) ?N = [Sleep (LED_ON_TIME cfg)]"
    using na nb nc nd by (simp add: r(1) filter_empty_conv) 
  have snd: "Call ''send_email_alert'' \<in> set ?N \<longleftrightarrow> Call ''send_email_alert'' \<in> set c"
    using na [of "Call ''send_email_alert''"] nb [of "Call ''send_email_alert''"]
      nd [of "Call ''send_email_alert''"] by (auto simp: r(1))
  show ?thesis
    using srt f4 r(3) r(6) r(10) r(4) r(11) by (simp add: snd r(8)) (simp add: r(1))
qed

lemma loop_iteration_globals: "same_globals s (snd (loop_iteration cfg e s))"
proof (cases "pir e = Inr True \<and> time_now e - motion_detected_time s > COOLDOWN_TIME cfg")
  case True
  then have a: "pir e = Inr True" "time_now e - motion_detected_time s > COOLDOWN_TIME cfg"
    by simp_all
  show ?thesis by (rule loop_iteration_accepted [OF a])
next
  case False
  then show ?thesis by (rule loop_iteration_ignored(2))
qed

lemma loop_iteration_no_notify:
  assumes "\<not> (camera_initialized s \<and> picam2 s \<and> email_configured s)"
  shows "grows (\<lambda>ev. phase ev \<noteq> 3) s (snd (loop_iteration cfg e s))"
proof (cases "pir e = Inr True \<and> time_now e - motion_detected_time s > COOLDOWN_TIME cfg")
  case True
  then have a: "pir e = Inr True" "time_now e - motion_detected_time s > COOLDOWN_TIME cfg"
    by simp_all
  show ?thesis
  proof (rule loop_iteration_accepted [OF a])
    fix a b c d
    assume r: "new_events s (snd (loop_iteration cfg e s)) = GpioInput (PIR_PIN cfg) # a @ b @ c @ d"
      "list_all (\<lambda>ev. phase ev = 1) a" "list_all (\<lambda>ev. phase ev = 2) b"
      "c \<noteq> [] \<Longrightarrow> camera_initialized s \<and> picam2 s \<and> makedirs_res e = None
         \<and> capture_res e = None \<and> email_configured s"
      "list_all (\<lambda>ev. phase ev = 4 \<or> phase ev = 5 \<or> phase ev = 6) d"
      "trace (snd (loop_iteration cfg e s)) = trace s @ GpioInput (PIR_PIN cfg) # a @ b @ c @ d"
    have c: "c = []" using r(4) assms by blast
    have "list_all (\<lambda>ev. phase ev \<noteq> 3) (GpioInput (PIR_PIN cfg) # a @ b @ c @ d)"
      using r(2) r(3) r(5) by (auto simp: c list_all_iff)
    with r(6) show ?thesis unfolding grows_def by blast
  qed
next
  case False
  show ?thesis
    by (rule grows_mono [OF loop_iteration_ignored(1) [OF False]]) auto
qed


lemma loop_iteration_undisturbed: "undisturbed e \<Longrightarrow> fst (loop_iteration cfg e s) = Inr ()"
proof -
  assume u: "undisturbed e"
  show ?thesis
  proof (cases "pir e = Inr True \<and> time_now e - motion_detected_time s > COOLDOWN_TIME cfg")
    case True
    then have a: "pir e = Inr True" "time_now e - motion_detected_time s > COOLDOWN_TIME cfg"
      by simp_all
    let ?r = "respond cfg e (time_now e) ((emit (GpioInput (PIR_PIN cfg)) s)\<lparr> clock := time_now e \<rparr>)"
    have "fst ?r = Inr ()" using u by (simp add: respond_time(1) undisturbed_def)
    then show ?thesis
      using u by (cases ?r) (simp add: loop_iteration_accept [OF a] undisturbed_def)
  next
    case False
    show ?thesis
    proof (cases "pir e")
      case (Inl msg)
      then show ?thesis using u by (simp add: loop_iteration_raise undisturbed_def)
    next
      case (Inr level)
      then show ?thesis using u False
        by (cases level) (simp_all add: loop_iteration_inactive loop_iteration_cooldown undisturbed_def)
    qed
  qed
qed


lemma run_loop_globals: "same_globals s (snd (run_loop cfg es s))"
proof (induction es arbitrary: s)
  case Nil
  then show ?case by simp
next
  case (Cons e es)
  show ?case
  proof (cases "loop_iteration cfg e s")
    case (Pair r s')
    then have g: "same_globals s s'" using loop_iteration_globals [of s cfg e] by simp
    show ?thesis
    proof (cases r)
      case (Inl ex)
      then show ?thesis using Pair g by simp
    next
      case (Inr v)
      then show ?thesis using Pair same_globals_trans [OF g Cons.IH [of s']] by simp
    qed
  qed
qed

lemma run_loop_no_notify:
  "\<not> (camera_initialized s \<and> picam2 s \<and> email_configured s) \<Longrightarrow>
   grows (\<lambda>ev. phase ev \<noteq> 3) s (snd (run_loop cfg es s))"
proof (induction es arbitrary: s)
  case Nil
  then show ?case by simp
next
  case (Cons e es)
  show ?case
  proof (cases "loop_iteration cfg e s")
    case (Pair r s')
    then have g: "same_globals s s'" using loop_iteration_globals [of s cfg e] by simp
    have n: "grows (\<lambda>ev. phase ev \<noteq> 3) s s'"
      using loop_iteration_no_notify [OF Cons.prems, of cfg e] Pair by simp
    show ?thesis
    proof (cases r)
      case (Inl ex)
      then show ?thesis using Pair n by simp
    next
      case (Inr v)
      have "\<not> (camera_initialized s' \<and> picam2 s' \<and> email_configured s')"
        using Cons.prems g by (simp add: same_globals_def)
      from grows_trans [OF n Cons.IH [OF this]] show ?thesis using Pair Inr by simp
    qed
  qed
qed

lemma run_loop_idle:
  "list_all (\<lambda>e. pir e \<noteq> Inr True \<and> undisturbed e) es \<Longrightarrow>
   fst (run_loop cfg es s) = Inr ()
   \<and> motion_detected_time (snd (run_loop cfg es s)) = motion_detected_time s"
proof (induction es arbitrary: s)
  case Nil
  then show ?case by simp
next
  case (Cons e es)
  then have e: "pir e \<noteq> Inr True" "undisturbed e" by simp_all
  have 1: "fst (loop_iteration cfg e s) = Inr ()" by (rule loop_iteration_undisturbed [OF e(2)])
  have 2: "motion_detected_time (snd (loop_iteration cfg e s)) = motion_detected_time s"
    by (rule loop_iteration_ignored(3)) (simp add: e(1))
  show ?case
    using 1 2 Cons.IH [of "snd (loop_iteration cfg e s)"] Cons.prems
    by (cases "loop_iteration cfg e s") simp
qed

lemma missing_fields_iff:
  "missing_fields m \<noteq> [] \<longleftrightarrow> (\<exists>field \<in> set required_fields. field_missing m field)"
  by (auto simp: missing_fields_def filter_empty_conv)

lemma load_email_config_invalid:
  assumes "field \<in> set required_fields" "field_missing (parse_lines ls (email_config s)) field"
  shows "fst (load_email_config cfg (Content ls err) s) = Inr False"
    and "email_configured (snd (load_email_config cfg (Content ls err) s)) = email_configured s"
proof -
  have m: "missing_fields (parse_lines ls (email_config s)) \<noteq> []"
    using assms missing_fields_iff by blast
  show "fst (load_email_config cfg (Content ls err) s) = Inr False"
    using m by (cases err) (simp_all add: load_email_config_def Let_def)
  show "email_configured (snd (load_email_config cfg (Content ls err) s)) = email_configured s"
    using m by (cases err) (simp_all add: load_email_config_def Let_def)
qed

lemma load_email_config_absent:
  "load_email_config cfg NotFound s =
     (Inr False, s\<lparr> trace := trace s @ [PathExists (ENV_FILE cfg),
                                        Print ''Email config file not found''] \<rparr>)"
  by (simp add: load_email_config_def Let_def emit_def)

lemma send_email_alert_disabled:
  assumes "\<not> email_configured s \<or> falsy p \<or> \<not> exists_res e"
  shows "fst (send_email_alert e p s) = Inr False"
    and "SmtpConnect \<notin> set (new_events s (snd (send_email_alert e p s)))"
  using assms
  by (auto simp: send_email_alert_def send_handlers_def Let_def new_events_def)

lemma run_loop_email_disabled:
  assumes "\<not> email_configured s"
  shows "\<not> email_configured (snd (run_loop cfg es s))"
    and "SmtpConnect \<notin> set (new_events s (snd (run_loop cfg es s)))"
proof -
  show "\<not> email_configured (snd (run_loop cfg es s))"
    using run_loop_globals [of s cfg es] assms by (simp add: same_globals_def)
  from assms have "\<not> (camera_initialized s \<and> picam2 s \<and> email_configured s)" by blast
  from phase_mem [OF grows_new_events [OF run_loop_no_notify [OF this, of cfg es]], of SmtpConnect]
  show "SmtpConnect \<notin> set (new_events s (snd (run_loop cfg es s)))" by auto
qed

lemma placeholder_file_parsed:
  "parse_lines placeholder_file Map.empty ''RECIPIENT_EMAIL'' = Some ''your_email@example.org''"
  by (simp add: placeholder_file_def strip_def isspace_def startswith_def split_eq_def)

lemma complete_file_enables_notifications:
  "fst (load_email_config settings (Content complete_file None) (boot 1700000000)) = Inr True
   \<and> email_configured
        (snd (load_email_config settings (Content complete_file None) (boot 1700000000)))"
  by (simp add: load_email_config_def missing_fields_def field_missing_def required_fields_def
      complete_file_def strip_def isspace_def startswith_def split_eq_def boot_def Let_def
      emit_def)

lemma new_events_append: "trace s' = trace s @ evs \<Longrightarrow> new_events s s' = evs"
  by (simp add: new_events_def)




lemma gpio_attempt_fail:
  "outcome attempt = Some msg \<Longrightarrow>
   gpio_attempt cfg outcome attempt s =
     (if attempt = 0
      then (Inr None, s\<lparr> trace := trace s @ [GpioCleanup, GpioSetup, Print ''GPIO setup attempt failed''] \<rparr>)
      else if attempt = 4
      then (Inr (Some False), s\<lparr> clock := clock s + 1, trace := trace s @ [GpioCleanup, Sleep 1, GpioSetup,
              Print ''GPIO setup attempt failed'', Print ''Failed to initialize GPIO after retries''] \<rparr>)
      else (Inr None, s\<lparr> clock := clock s + 1, trace := trace s @ [GpioCleanup, Sleep 1, GpioSetup,
              Print ''GPIO setup attempt failed''] \<rparr>))"
  by (simp add: MAX_RETRIES_def gpio_attempt_def driver_call_def emit_def)

lemma setup_gpio_exhausted:
  assumes "list_all (\<lambda>attempt. outcome attempt \<noteq> None) [0 ..< MAX_RETRIES]"
  shows "setup_gpio cfg outcome s =
     (Inr False, s\<lparr> clock := clock s + 4, trace := trace s @
        [ForceRelease,
         GpioCleanup, GpioSetup, Print ''GPIO setup attempt failed'',
         GpioCleanup, Sleep 1, GpioSetup, Print ''GPIO setup attempt failed'',
         GpioCleanup, Sleep 1, GpioSetup, Print ''GPIO setup attempt failed'',
         GpioCleanup, Sleep 1, GpioSetup, Print ''GPIO setup attempt failed'',
         GpioCleanup, Sleep 1, GpioSetup, Print ''GPIO setup attempt failed'',
         Print ''Failed to initialize GPIO after retries''] \<rparr>)"
proof -
  from assms obtain m0 m1 m2 m3 m4 where m:
    "outcome 0 = Some m0" "outcome 1 = Some m1" "outcome 2 = Some m2" "outcome 3 = Some m3"
    "outcome 4 = Some m4"
    unfolding range_MAX_RETRIES by auto
  show ?thesis
    unfolding setup_gpio_def range_MAX_RETRIES
    by (simp add: gpio_attempt_fail [of outcome 0, OF m(1)] gpio_attempt_fail [of outcome 1, OF m(2)]
        gpio_attempt_fail [of outcome 2, OF m(3)] gpio_attempt_fail [of outcome 3, OF m(4)]
        gpio_attempt_fail [of outcome 4, OF m(5)] del: One_nat_def)
qed

lemma main_without_gpio:
  assumes "list_all (\<lambda>attempt. gpio_attempts me attempt \<noteq> None) [0 ..< MAX_RETRIES]"
  shows "fst (main cfg me s) = Inr (Some 1)"
    and "gpio_initialized (snd (main cfg me s)) = gpio_initialized s"
    and "GpioInput pin \<notin> set (new_events s (snd (main cfg me s)))"
  by (simp_all add: main_def setup_gpio_exhausted [OF assms] new_events_def)

text \<open>The exit status of the process, from how \<open>main\<close> ends.\<close>

lemma finally_clause_status:
  "fst (finally_clause cfg fe exit_code s) = process_status (sys_exit exit_code)"
  using cleanup_result [of cfg fe s]
  by (cases "cleanup cfg fe s") (simp add: finally_clause_def)

lemma entry_point_returns:
  "fst (main cfg me s) = Inr (Some c) \<Longrightarrow> fst (entry_point cfg me fe s) = Some c"
  using finally_clause_status [of cfg fe "Some c" "snd (main cfg me s)"]
  by (cases "main cfg me s") (auto simp: entry_point_def split: prod.splits)

lemma entry_point_exception:
  "fst (main cfg me s) = Inl ex \<Longrightarrow> is_Exception ex \<Longrightarrow> fst (entry_point cfg me fe s) = Some 1"
  using finally_clause_status [of cfg fe "Some 1" "emit (Print ''Fatal error'') (snd (main cfg me s))"]
  by (cases "main cfg me s") (auto simp: entry_point_def split: prod.splits)

lemma entry_point_system_exit:
  "fst (main cfg me s) = Inl (SystemExit c) \<Longrightarrow> fst (entry_point cfg me fe s) = Some 1"
  using finally_clause_status [of cfg fe None "snd (main cfg me s)"]
  by (cases "main cfg me s") (auto simp: entry_point_def split: prod.splits)

lemma entry_point_without_gpio:
  "list_all (\<lambda>attempt. gpio_attempts me attempt \<noteq> None) [0 ..< MAX_RETRIES] \<Longrightarrow>
   fst (entry_point cfg me fe s) = Some 1
   \<and> GpioInput pin \<notin> set (new_events s (snd (main cfg me s)))"
  using main_without_gpio(1) [where me = me and cfg = cfg and s = s]
    main_without_gpio(3) [where me = me and cfg = cfg and s = s and pin = pin]
    entry_point_returns [of cfg me s 1 fe] by simp

lemma loop_iteration_records:
  assumes "pir e = Inr True" "time_now e - motion_detected_time s > COOLDOWN_TIME cfg"
    and "hold_signal e = None"
  shows "motion_detected_time (snd (loop_iteration cfg e s)) = time_now e"
proof -
  let ?s1 = "(emit (GpioInput (PIR_PIN cfg)) s)\<lparr> clock := time_now e \<rparr>"
  let ?r = "respond cfg e (time_now e) ?s1"
  have r: "fst ?r = Inr ()" "motion_detected_time (snd ?r) = time_now e"
    using respond_time(1,2) [OF assms(3), of cfg "time_now e" ?s1] by simp_all
  have li: "loop_iteration cfg e s = time_sleep cfg (1 / 10) (poll_signal e) (snd ?r)"
    using r(1) by (cases ?r) (simp add: loop_iteration_accept [OF assms(1,2)])
  show ?thesis
    using time_sleep_keeps [of "snd ?r" cfg "1 / 10" "poll_signal e"] r(2) by (simp add: li)
qed






lemma loop_iteration_exits:
  "fst (loop_iteration cfg e s) = Inr () \<or> fst (loop_iteration cfg e s) = Inl (SystemExit 0)"
proof (cases "pir e = Inr True \<and> time_now e - motion_detected_time s > COOLDOWN_TIME cfg")
  case True
  then have a: "pir e = Inr True" "time_now e - motion_detected_time s > COOLDOWN_TIME cfg"
    by simp_all
  let ?r = "respond cfg e (time_now e) ((emit (GpioInput (PIR_PIN cfg)) s)\<lparr> clock := time_now e \<rparr>)"
  have r: "fst ?r = (case hold_signal e of None \<Rightarrow> Inr () | Some ce \<Rightarrow> Inl (SystemExit 0))"
    by (rule respond_general)
  show ?thesis
    using r time_sleep_fst [of cfg "1 / 10" "poll_signal e" "snd ?r"]
    by (cases ?r; cases "fst ?r")
       (auto simp: loop_iteration_accept [OF a] split: option.splits)
next
  case False
  show ?thesis
  proof (cases "pir e")
    case (Inl msg)
    then show ?thesis
      using time_sleep_fst [of cfg 1 "pause_signal e"]
      by (auto simp: loop_iteration_raise split: option.splits)
  next
    case (Inr level)
    then show ?thesis using False
      time_sleep_fst [of cfg "1 / 10" "poll_signal e"]
      by (cases level) (auto simp: loop_iteration_inactive loop_iteration_cooldown split: option.splits)
  qed
qed

lemma run_loop_exits:
  "fst (run_loop cfg es s) = Inr () \<or> fst (run_loop cfg es s) = Inl (SystemExit 0)"
proof (induction es arbitrary: s)
  case Nil
  then show ?case by simp
next
  case (Cons e es)
  show ?case
    using loop_iteration_exits [of cfg e s] Cons.IH [of "snd (loop_iteration cfg e s)"]
    by (cases "loop_iteration cfg e s") auto
qed

lemma time_sleep_trace:
  "\<exists>evs. trace (snd (time_sleep cfg d sig s)) = trace s @ evs
     \<and> list_all (\<lambda>ev. phase ev = 4 \<or> phase ev = 5 \<or> phase ev = 6) evs"
  using time_sleep_grows [of s cfg d sig] by (simp add: grows_def)



lemma loop_iteration_signalled:
  "pir e = Inr False \<Longrightarrow> poll_signal e \<noteq> None \<Longrightarrow>
     fst (loop_iteration cfg e s) = Inl (SystemExit 0)"
  "pir e = Inr True \<Longrightarrow> time_now e - motion_detected_time s > COOLDOWN_TIME cfg \<Longrightarrow>
     hold_signal e \<noteq> None \<Longrightarrow> fst (loop_iteration cfg e s) = Inl (SystemExit 0)"
proof -
  show "fst (loop_iteration cfg e s) = Inl (SystemExit 0)"
    if "pir e = Inr False" "poll_signal e \<noteq> None"
    using that time_sleep_fst [of cfg "1 / 10" "poll_signal e" "emit (GpioInput (PIR_PIN cfg)) s"]
    by (auto simp: loop_iteration_inactive)
  show "fst (loop_iteration cfg e s) = Inl (SystemExit 0)"
    if a: "pir e = Inr True" "time_now e - motion_detected_time s > COOLDOWN_TIME cfg"
      and h: "hold_signal e \<noteq> None"
  proof -
    let ?r = "respond cfg e (time_now e) ((emit (GpioInput (PIR_PIN cfg)) s)\<lparr> clock := time_now e \<rparr>)"
    have "fst ?r = Inl (SystemExit 0)" by (rule respond_interrupted(1) [OF h])
    then show ?thesis by (cases ?r) (simp add: loop_iteration_accept [OF a])
  qed
qed

lemma gpio_attempt_ok:
  "outcome attempt = None \<Longrightarrow>
   gpio_attempt cfg outcome attempt s =
     (if attempt = 0
      then (Inr (Some True), s\<lparr> trace := trace s @ [GpioCleanup, GpioSetup, GpioOutput (LED_PIN cfg) False],
              led := False, gpio_initialized := True \<rparr>)
      else (Inr (Some True), s\<lparr> clock := clock s + 1,
              trace := trace s @ [GpioCleanup, Sleep 1, GpioSetup, GpioOutput (LED_PIN cfg) False],
              led := False, gpio_initialized := True \<rparr>))"
  by (simp add: MAX_RETRIES_def gpio_attempt_def driver_call_def GPIO_output_def emit_def)

lemma setup_gpio_result:
  "fst (setup_gpio cfg outcome s) =
     Inr (\<not> list_all (\<lambda>attempt. outcome attempt \<noteq> None) [0 ..< MAX_RETRIES])
   \<and> gpio_initialized (snd (setup_gpio cfg outcome s)) =
       (gpio_initialized s \<or> \<not> list_all (\<lambda>attempt. outcome attempt \<noteq> None) [0 ..< MAX_RETRIES])
   \<and> grows startup_event s (snd (setup_gpio cfg outcome s))"
proof (cases "list_all (\<lambda>attempt. outcome attempt \<noteq> None) [0 ..< MAX_RETRIES]")
  case True
  show ?thesis
    using True by (simp add: setup_gpio_exhausted [OF True] grows_def)
next
  case False
  have r: "[0 ..< MAX_RETRIES] = [0, 1, 2, 3, 4]" by (rule range_MAX_RETRIES)
  show ?thesis
  proof (cases "outcome 0")
    case None
    show ?thesis using False by (simp add: setup_gpio_first_try [of outcome, OF None] grows_def)
  next
    case m0: (Some a0)
    show ?thesis
    proof (cases "outcome 1")
      case None
      show ?thesis using False unfolding setup_gpio_def r
        by (simp add: gpio_attempt_fail [of outcome 0, OF m0] gpio_attempt_ok [of outcome 1, OF None]
            grows_def emit_def del: One_nat_def)
    next
      case m1: (Some a1)
      show ?thesis
      proof (cases "outcome 2")
        case None
        show ?thesis using False unfolding setup_gpio_def r
          by (simp add: gpio_attempt_fail [of outcome 0, OF m0] gpio_attempt_fail [of outcome 1, OF m1]
              gpio_attempt_ok [of outcome 2, OF None] grows_def emit_def del: One_nat_def)
      next
        case m2: (Some a2)
        show ?thesis
        proof (cases "outcome 3")
          case None
          show ?thesis using False unfolding setup_gpio_def r
            by (simp add: gpio_attempt_fail [of outcome 0, OF m0] gpio_attempt_fail [of outcome 1, OF m1]
                gpio_attempt_fail [of outcome 2, OF m2]
                gpio_attempt_ok [of outcome 3, OF None] grows_def emit_def del: One_nat_def)
        next
          case m3: (Some a3)
          show ?thesis
          proof (cases "outcome 4")
            case None
            show ?thesis using False unfolding setup_gpio_def r
              by (simp add: gpio_attempt_fail [of outcome 0, OF m0] gpio_attempt_fail [of outcome 1, OF m1]
                  gpio_attempt_fail [of outcome 2, OF m2] gpio_attempt_fail [of outcome 3, OF m3]
                  gpio_attempt_ok [of outcome 4, OF None] grows_def emit_def del: One_nat_def)
          next
            case m4: (Some a4)
            from False show ?thesis unfolding r using m0 m1 m2 m3 m4 by simp
          qed
        qed
      qed
    qed
  qed
qed

lemma setup_camera_result:
  "\<not> isl (fst (setup_camera cfg r s))
   \<and> gpio_initialized (snd (setup_camera cfg r s)) = gpio_initialized s
   \<and> grows startup_event s (snd (setup_camera cfg r s))"
  by (cases r) (simp_all add: setup_camera_def camera_handlers_def grows_def emit_def)

lemma load_email_config_result:
  "\<not> isl (fst (load_email_config cfg f s))
   \<and> gpio_initialized (snd (load_email_config cfg f s)) = gpio_initialized s
   \<and> grows startup_event s (snd (load_email_config cfg f s))"
proof (cases f)
  case NotFound
  then show ?thesis by (simp add: load_email_config_absent grows_def)
next
  case (Content ls err)
  then show ?thesis
    by (cases err) (simp_all add: load_email_config_def Let_def grows_def emit_def)
qed



lemma startup_event_nocall: "startup_event ev \<Longrightarrow> ev \<noteq> Call f"
  by (cases ev) simp_all

lemma teardown_noread: "phase ev = 4 \<or> phase ev = 5 \<or> phase ev = 6 \<Longrightarrow> \<not> is_GpioInput ev"
  by (cases ev) simp_all

lemma main_startup:
  assumes ok: "\<not> list_all (\<lambda>attempt. gpio_attempts me attempt \<noteq> None) [0 ..< MAX_RETRIES]"
    and dir: "save_dir_res me = None"
  obtains s0 where "gpio_initialized s0" "grows startup_event s s0"
    "\<And>es. main cfg (me\<lparr> cycles := es \<rparr>) s =
       (case run_loop cfg es (s0\<lparr> motion_detected_time := 0 \<rparr>) of
          (Inl KeyboardInterrupt, s') \<Rightarrow> (Inr (Some 0), s')
        | (Inl ex, s') \<Rightarrow> (Inl ex, s')
        | (Inr _, s') \<Rightarrow> (Inr None, s'))"
proof -
  define s1 where "s1 = snd (setup_gpio cfg (gpio_attempts me) s)"
  have g: "setup_gpio cfg (gpio_attempts me) s = (Inr True, s1)"
    using setup_gpio_result [of cfg "gpio_attempts me" s] ok by (simp add: prod_eq_iff s1_def)
  have g1: "gpio_initialized s1" "grows startup_event s s1"
    using setup_gpio_result [of cfg "gpio_attempts me" s] ok by (simp_all add: s1_def)
  obtain cam s2 where c: "setup_camera cfg (camera_res me) s1 = (Inr cam, s2)"
    using setup_camera_result [of cfg "camera_res me" s1]
    by (cases "setup_camera cfg (camera_res me) s1"; cases "fst (setup_camera cfg (camera_res me) s1)")
       simp_all
  have g2: "gpio_initialized s2" "grows startup_event s1 s2"
    using setup_camera_result [of cfg "camera_res me" s1] c g1(1) by simp_all
  define s2' where "s2' = (if \<not> cam
      then emit (Print ''Camera initialization failed. Running without camera.'') s2 else s2)"
  have g2': "gpio_initialized s2'" "grows startup_event s2 s2'"
    using g2(1) by (simp_all add: s2'_def grows_def emit_def)
  obtain b s3 where l: "load_email_config cfg (env_file_res me) s2' = (Inr b, s3)"
    using load_email_config_result [of cfg "env_file_res me" s2']
    by (cases "load_email_config cfg (env_file_res me) s2'";
        cases "fst (load_email_config cfg (env_file_res me) s2')") simp_all
  have g3: "gpio_initialized s3" "grows startup_event s2' s3"
    using load_email_config_result [of cfg "env_file_res me" s2'] l g2'(1) by simp_all
  define s0 where "s0 = emit (Makedirs (SAVE_DIR cfg)) s3"
  have g0: "gpio_initialized s0" "grows startup_event s3 s0"
    using g3(1) by (simp_all add: s0_def grows_def emit_def)
  have gr: "grows startup_event s s0"
    by (rule grows_trans [OF g1(2) grows_trans [OF g2(2) grows_trans [OF g2'(2)
          grows_trans [OF g3(2) g0(2)]]]])
  have m: "main cfg (me\<lparr> cycles := es \<rparr>) s =
       (case run_loop cfg es (s0\<lparr> motion_detected_time := 0 \<rparr>) of
          (Inl KeyboardInterrupt, s') \<Rightarrow> (Inr (Some 0), s')
        | (Inl ex, s') \<Rightarrow> (Inl ex, s')
        | (Inr _, s') \<Rightarrow> (Inr None, s'))" for es
    using l unfolding s2'_def
    by (simp add: main_def g c dir driver_call_def s0_def del: run_loop.simps)
  from g0(1) gr m show ?thesis by (rule that)
qed



lemma time_sleep_reads:
  "\<exists>evs. trace (snd (time_sleep cfg d sig s)) = trace s @ evs
     \<and> list_all (\<lambda>ev. \<not> is_GpioInput ev) evs
     \<and> (fst (time_sleep cfg d sig s) = Inr () \<longrightarrow> Call ''cleanup'' \<notin> set evs)"
proof (cases sig)
  case None
  then show ?thesis by (simp add: emit_def)
next
  case (Some ce)
  obtain evs where e: "trace (snd (time_sleep cfg d sig s)) = trace s @ evs"
    "list_all (\<lambda>ev. phase ev = 4 \<or> phase ev = 5 \<or> phase ev = 6) evs"
    using time_sleep_trace [of cfg d sig s] by blast
  have "list_all (\<lambda>ev. \<not> is_GpioInput ev) evs"
    using e(2) teardown_noread by (simp add: list_all_iff)
  moreover have "fst (time_sleep cfg d sig s) \<noteq> Inr ()"
    using time_sleep_Some [of cfg d ce s] Some by simp
  ultimately show ?thesis using e(1) by blast
qed

lemma loop_iteration_reads:
  "\<exists>rest. trace (snd (loop_iteration cfg e s)) = trace s @ GpioInput (PIR_PIN cfg) # rest
     \<and> list_all (\<lambda>ev. \<not> is_GpioInput ev) rest
     \<and> (fst (loop_iteration cfg e s) = Inr () \<longrightarrow> Call ''cleanup'' \<notin> set rest)"
proof (cases "pir e")
  case (Inl msg)
  let ?s = "emit (Print ''Error in main loop'') (emit (GpioInput (PIR_PIN cfg)) s)"
  obtain evs where e: "trace (snd (time_sleep cfg 1 (pause_signal e) ?s)) = trace ?s @ evs"
    "list_all (\<lambda>ev. \<not> is_GpioInput ev) evs"
    "fst (time_sleep cfg 1 (pause_signal e) ?s) = Inr () \<longrightarrow> Call ''cleanup'' \<notin> set evs"
    using time_sleep_reads [of cfg 1 "pause_signal e" ?s] by blast
  show ?thesis
    apply (rule exI [of _ "Print ''Error in main loop'' # evs"])
    using e by (simp add: loop_iteration_raise [OF Inl] emit_def)
next
  case (Inr level)
  show ?thesis
  proof (cases "level \<and> time_now e - motion_detected_time s > COOLDOWN_TIME cfg")
    case False
    define s1 where "s1 = (if level then (emit (GpioInput (PIR_PIN cfg)) s)\<lparr> clock := time_now e \<rparr>
        else emit (GpioInput (PIR_PIN cfg)) s)"
    have li: "loop_iteration cfg e s = time_sleep cfg (1 / 10) (poll_signal e) s1"
      using False Inr loop_iteration_inactive [where e = e and cfg = cfg and s = s]
        loop_iteration_cooldown [where e = e and cfg = cfg and s = s]
      by (cases level) (simp_all add: s1_def)
    have t1: "trace s1 = trace s @ [GpioInput (PIR_PIN cfg)]" by (simp add: s1_def emit_def)
    obtain evs where e: "trace (snd (time_sleep cfg (1 / 10) (poll_signal e) s1)) = trace s1 @ evs"
      "list_all (\<lambda>ev. \<not> is_GpioInput ev) evs"
      "fst (time_sleep cfg (1 / 10) (poll_signal e) s1) = Inr () \<longrightarrow> Call ''cleanup'' \<notin> set evs"
      using time_sleep_reads [of cfg "1 / 10" "poll_signal e" s1] by blast
    show ?thesis
      apply (rule exI [of _ evs])
      using e by (simp add: li t1)
  next
    case True
    then have a: "pir e = Inr True" "time_now e - motion_detected_time s > COOLDOWN_TIME cfg"
      using Inr by simp_all
    define s1 where "s1 = (emit (GpioInput (PIR_PIN cfg)) s)\<lparr> clock := time_now e \<rparr>"
    have t1: "trace s1 = trace s @ [GpioInput (PIR_PIN cfg)]" by (simp add: s1_def emit_def)
    have li: "loop_iteration cfg e s =
        and_then (respond cfg e (time_now e) s1) (\<lambda>_ s. time_sleep cfg (1 / 10) (poll_signal e) s)"
      unfolding s1_def by (rule loop_iteration_accept [OF a])
    show ?thesis
    proof (rule respond_general [of s1 cfg e "time_now e"])
      fix a b c d
      assume r: "list_all (\<lambda>ev. phase ev = 1) a" "list_all (\<lambda>ev. phase ev = 2) b"
        "list_all (\<lambda>ev. phase ev = 3) c"
        "list_all (\<lambda>ev. phase ev = 4 \<or> phase ev = 5 \<or> phase ev = 6) d"
        "trace (snd (respond cfg e (time_now e) s1)) = trace s1 @ a @ b @ c @ d"
        "new_events s1 (snd (respond cfg e (time_now e) s1)) = a @ b @ c @ d"
        "fst (respond cfg e (time_now e) s1) =
           (case hold_signal e of None \<Rightarrow> Inr () | Some ce \<Rightarrow> Inl (SystemExit 0))"
      have nr: "list_all (\<lambda>ev. \<not> is_GpioInput ev) (a @ b @ c @ d)"
      proof -
        have "\<not> is_GpioInput ev" if "phase ev \<noteq> 0" for ev using that by (cases ev) simp_all
        then show ?thesis using r(1-4) by (auto simp: list_all_iff)
      qed
      show ?thesis
      proof (cases "hold_signal e")
        case (Some ce)
        have f: "fst (loop_iteration cfg e s) \<noteq> Inr ()"
          using loop_iteration_signalled(2) [OF a, of ] Some by simp
        have s: "snd (loop_iteration cfg e s) = snd (respond cfg e (time_now e) s1)"
          using r(7) Some unfolding li
          by (cases "respond cfg e (time_now e) s1") (simp add: and_then_def)
        show ?thesis
          apply (rule exI [of _ "a @ b @ c @ d"])
          using f nr by (simp add: s r(5) t1)
      next
        case None
        define s2 where "s2 = snd (respond cfg e (time_now e) s1)"
        have rr: "respond cfg e (time_now e) s1 = (Inr (), s2)"
          using r(7) None by (simp add: prod_eq_iff s2_def)
        have li2: "loop_iteration cfg e s = time_sleep cfg (1 / 10) (poll_signal e) s2"
          unfolding li rr by simp
        have nc: "Call ''cleanup'' \<notin> set (a @ b @ c @ d)"
        proof (rule respond_uninterrupted [OF None, of s1 cfg "time_now e"])
          fix a' b' c' d'
          assume u: "new_events s1 (snd (respond cfg e (time_now e) s1)) =
              a' @ b' @ c' @ Sleep (LED_ON_TIME cfg) # d'"
            "list_all (\<lambda>ev. phase ev = 1) a'" "list_all (\<lambda>ev. phase ev = 2) b'"
            "list_all (\<lambda>ev. phase ev = 3) c'" "list_all (\<lambda>ev. phase ev = 5) d'"
          have "phase ev \<noteq> 6" if "ev \<in> set (a' @ b' @ c' @ Sleep (LED_ON_TIME cfg) # d')" for ev
            using that u(2-5) by (auto simp: list_all_iff)
          then have "Call ''cleanup'' \<notin> set (a' @ b' @ c' @ Sleep (LED_ON_TIME cfg) # d')"
            by fastforce
          then show ?thesis using u(1) r(6) by simp
        qed
        obtain evs where e: "trace (snd (time_sleep cfg (1 / 10) (poll_signal e) s2)) = trace s2 @ evs"
          "list_all (\<lambda>ev. \<not> is_GpioInput ev) evs"
          "fst (time_sleep cfg (1 / 10) (poll_signal e) s2) = Inr () \<longrightarrow> Call ''cleanup'' \<notin> set evs"
          using time_sleep_reads [of cfg "1 / 10" "poll_signal e" s2] by blast
        have t2: "trace s2 = trace s @ GpioInput (PIR_PIN cfg) # a @ b @ c @ d"
          using r(5) by (simp add: s2_def t1)
        show ?thesis
          apply (rule exI [of _ "(a @ b @ c @ d) @ evs"])
          using e nr nc by (simp add: li2 t2)
      qed
    qed
  qed
qed





lemma run_loop_append:
  "run_loop cfg (es @ es') s =
     (case run_loop cfg es s of (Inl ex, s') \<Rightarrow> (Inl ex, s') | (Inr _, s') \<Rightarrow> run_loop cfg es' s')"
  by (induction es arbitrary: s) (simp_all split: prod.splits sum.splits)

lemma run_loop_idle_events:
  "list_all (\<lambda>e. pir e \<noteq> Inr True \<and> undisturbed e) es \<Longrightarrow>
   grows (\<lambda>ev. phase ev = 0 \<or> phase ev = 4 \<or> phase ev = 5 \<or> phase ev = 6) s
     (snd (run_loop cfg es s))"
proof (induction es arbitrary: s)
  case Nil
  then show ?case by (simp add: grows_refl)
next
  case (Cons e es)
  have n: "\<not> (pir e = Inr True \<and> time_now e - motion_detected_time s > COOLDOWN_TIME cfg)"
    using Cons.prems by simp
  have u: "fst (loop_iteration cfg e s) = Inr ()"
    using loop_iteration_undisturbed [of e cfg s] Cons.prems by simp
  have g: "grows (\<lambda>ev. phase ev = 0 \<or> phase ev = 4 \<or> phase ev = 5 \<or> phase ev = 6) s
      (snd (loop_iteration cfg e s))"
    by (rule loop_iteration_ignored(1) [OF n])
  have r: "list_all (\<lambda>e. pir e \<noteq> Inr True \<and> undisturbed e) es" using Cons.prems by simp
  show ?case
    using u grows_trans [OF g Cons.IH [OF r, of "snd (loop_iteration cfg e s)"]]
    by (cases "loop_iteration cfg e s") simp
qed


lemma main_loop_state:
  assumes ok: "\<not> list_all (\<lambda>attempt. gpio_attempts me attempt \<noteq> None) [0 ..< MAX_RETRIES]"
    and dir: "save_dir_res me = None"
  obtains s0 where "gpio_initialized s0" "grows startup_event s s0"
    "\<And>es. snd (main cfg (me\<lparr> cycles := es \<rparr>) s) =
       snd (run_loop cfg es (s0\<lparr> motion_detected_time := 0 \<rparr>))"
    "\<And>es. fst (main cfg (me\<lparr> cycles := es \<rparr>) s) =
       (if fst (run_loop cfg es (s0\<lparr> motion_detected_time := 0 \<rparr>)) = Inr () then Inr None
        else Inl (SystemExit 0))"
proof (rule main_startup [OF ok dir, of s cfg])
  fix s0
  assume a: "gpio_initialized s0" "grows startup_event s s0"
    "\<And>es. main cfg (me\<lparr> cycles := es \<rparr>) s =
       (case run_loop cfg es (s0\<lparr> motion_detected_time := 0 \<rparr>) of
          (Inl KeyboardInterrupt, s') \<Rightarrow> (Inr (Some 0), s')
        | (Inl ex, s') \<Rightarrow> (Inl ex, s')
        | (Inr _, s') \<Rightarrow> (Inr None, s'))"
  have b: "snd (main cfg (me\<lparr> cycles := es \<rparr>) s) =
       snd (run_loop cfg es (s0\<lparr> motion_detected_time := 0 \<rparr>))" for es
    unfolding a(3) by (simp split: prod.splits sum.splits exn.splits)
  have c: "fst (main cfg (me\<lparr> cycles := es \<rparr>) s) =
       (if fst (run_loop cfg es (s0\<lparr> motion_detected_time := 0 \<rparr>)) = Inr () then Inr None
        else Inl (SystemExit 0))" for es
    using run_loop_exits [of cfg es "s0\<lparr> motion_detected_time := 0 \<rparr>"]
    unfolding a(3) by (cases "run_loop cfg es (s0\<lparr> motion_detected_time := 0 \<rparr>)") auto
  from a(1,2) b c show thesis by (rule that)
qed








section \<open>The claims\<close>

subsection \<open>C1: a trigger is accepted exactly when the sensor is active and the cooldown has passed\<close>

text \<open>
  Claim C1. In every iteration of the detection loop the trigger is accepted, that is
  \<open>led_on\<close> and \<open>capture_image\<close> are called (and the actuator line is written high when
  the GPIO is initialised), if and only if the sensor reads active and the time since
  the last accepted trigger is strictly greater than the cooldown; the notifier is called
  exactly when, in addition, the capture produced a path and mail is configured. When the
  sensor is active and the elapsed time is at most the cooldown, the iteration appends no
  event of the actuator-on, capture or notification steps, leaves the recorded trigger
  time unchanged, and (with no signal during the poll delay) does nothing but the sensor
  read and the 0.1 s delay. In particular, after a trigger accepted at \<open>t1\<close> whose
  cycle completed, an active sample at \<open>t2\<close> with \<open>t2 - t1\<close> at most the cooldown
  is ignored.
\<close>

theorem trigger_accepted_iff:
  "(Call ''led_on'' \<in> set (new_events s (snd (loop_iteration cfg e s)))
      \<longleftrightarrow> pir e = Inr True \<and> time_now e - motion_detected_time s > COOLDOWN_TIME cfg)
   \<and> (Call ''capture_image'' \<in> set (new_events s (snd (loop_iteration cfg e s)))
      \<longleftrightarrow> pir e = Inr True \<and> time_now e - motion_detected_time s > COOLDOWN_TIME cfg)
   \<and> (GpioOutput (LED_PIN cfg) True \<in> set (new_events s (snd (loop_iteration cfg e s)))
      \<longleftrightarrow> gpio_initialized s
          \<and> pir e = Inr True \<and> time_now e - motion_detected_time s > COOLDOWN_TIME cfg)
   \<and> (Call ''send_email_alert'' \<in> set (new_events s (snd (loop_iteration cfg e s)))
      \<longleftrightarrow> pir e = Inr True \<and> time_now e - motion_detected_time s > COOLDOWN_TIME cfg
          \<and> camera_initialized s \<and> picam2 s \<and> makedirs_res e = None \<and> capture_res e = None
          \<and> email_configured s)
   \<and> (pir e = Inr True \<and> time_now e - motion_detected_time s \<le> COOLDOWN_TIME cfg \<longrightarrow>
        list_all (\<lambda>ev. phase ev \<noteq> 1 \<and> phase ev \<noteq> 2 \<and> phase ev \<noteq> 3)
          (new_events s (snd (loop_iteration cfg e s)))
        \<and> motion_detected_time (snd (loop_iteration cfg e s)) = motion_detected_time s)
   \<and> (pir e = Inr True \<and> time_now e - motion_detected_time s \<le> COOLDOWN_TIME cfg
        \<and> poll_signal e = None \<longrightarrow>
        loop_iteration cfg e s =
          (Inr (), s\<lparr> clock := time_now e + 1 / 10,
                      trace := trace s @ [GpioInput (PIR_PIN cfg), Sleep (1 / 10)] \<rparr>))
   \<and> (pir e = Inr True \<and> time_now e - motion_detected_time s > COOLDOWN_TIME cfg
        \<and> hold_signal e = None
        \<and> pir e' = Inr True \<and> time_now e' - time_now e \<le> COOLDOWN_TIME cfg \<longrightarrow>
        Call ''led_on'' \<notin> set (new_events (snd (loop_iteration cfg e s))
          (snd (loop_iteration cfg e' (snd (loop_iteration cfg e s))))))"
proof (cases "pir e = Inr True \<and> time_now e - motion_detected_time s > COOLDOWN_TIME cfg")
  case True
  then have a: "pir e = Inr True" "time_now e - motion_detected_time s > COOLDOWN_TIME cfg"
    by simp_all
  have 7: "Call ''led_on'' \<notin> set (new_events (snd (loop_iteration cfg e s))
          (snd (loop_iteration cfg e' (snd (loop_iteration cfg e s)))))"
    if "hold_signal e = None" "time_now e' - time_now e \<le> COOLDOWN_TIME cfg"
  proof -
    let ?s1 = "snd (loop_iteration cfg e s)"
    have "motion_detected_time ?s1 = time_now e"
      by (rule loop_iteration_records [OF a that(1)])
    with that(2) have "\<not> (pir e' = Inr True
        \<and> time_now e' - motion_detected_time ?s1 > COOLDOWN_TIME cfg)" by simp
    from phase_mem [OF loop_iteration_ignored_events [OF this], of "Call ''led_on''"]
    show ?thesis by auto
  qed
  show ?thesis
    using loop_iteration_accepted_events [OF a] a 7 by simp
next
  case False
  let ?N = "new_events s (snd (loop_iteration cfg e s))"
  have n: "list_all (\<lambda>ev. phase ev \<noteq> 1 \<and> phase ev \<noteq> 2 \<and> phase ev \<noteq> 3) ?N"
    by (rule loop_iteration_ignored_events [OF False])
  have 1: "Call ''led_on'' \<notin> set ?N" using phase_mem [OF n, of "Call ''led_on''"] by auto
  have 2: "Call ''capture_image'' \<notin> set ?N"
    using phase_mem [OF n, of "Call ''capture_image''"] by auto
  have 3: "GpioOutput (LED_PIN cfg) True \<notin> set ?N"
    using phase_mem [OF n, of "GpioOutput (LED_PIN cfg) True"] by auto
  have 4: "Call ''send_email_alert'' \<notin> set ?N"
    using phase_mem [OF n, of "Call ''send_email_alert''"] by auto
  have 5: "motion_detected_time (snd (loop_iteration cfg e s)) = motion_detected_time s"
    by (rule loop_iteration_ignored(3) [OF False])
  have 6: "loop_iteration cfg e s =
          (Inr (), s\<lparr> clock := time_now e + 1 / 10,
                      trace := trace s @ [GpioInput (PIR_PIN cfg), Sleep (1 / 10)] \<rparr>)"
    if "pir e = Inr True" "time_now e - motion_detected_time s \<le> COOLDOWN_TIME cfg"
      "poll_signal e = None"
    using that by (simp add: loop_iteration_cooldown emit_def)
  show ?thesis
    using False 1 2 3 4 5 6 n by auto
qed

theorem trigger_accepted_iff_witness:
  "Call ''led_on'' \<in> set (new_events armed (snd (loop_iteration settings motion armed)))
   \<and> loop_iteration settings (motion\<lparr> time_now := 1700000001 \<rparr>)
        (armed\<lparr> motion_detected_time := 1700000000 \<rparr>) =
       (Inr (), armed\<lparr> motion_detected_time := 1700000000, clock := 1700000001 + 1 / 10,
                  trace := [GpioInput 17, Sleep (1 / 10)] \<rparr>)
   \<and> Call ''led_on'' \<notin> set (new_events (snd (loop_iteration settings motion armed))
        (snd (loop_iteration settings motion (snd (loop_iteration settings motion armed)))))"
  using trigger_accepted_iff [of armed settings motion motion]
    trigger_accepted_iff [of "armed\<lparr> motion_detected_time := 1700000000 \<rparr>" settings
      "motion\<lparr> time_now := 1700000001 \<rparr>" motion]
  by (simp add: motion_def armed_def boot_def settings_def)

subsection \<open>C2: the steps of an accepted cycle come in a fixed order\<close>

text \<open>
  Claim C2. In an accepted detection cycle whose hold is not interrupted, the events
  appear in the order of the steps (the step numbers along the trace are sorted): actuator
  on, capture, notification, hold, actuator off. The actuator-on, capture and
  actuator-off steps are always there, the hold is exactly one sleep of \<open>LED_ON_TIME\<close>,
  and the notifier is called exactly when the capture produced a path and mail is
  configured. The trigger time is recorded at the end: it is set when the cycle
  completes, and it is still the old value when a signal ends the cycle during the hold.
\<close>

theorem cycle_steps_in_order:
  "(hold_signal e = None \<longrightarrow>
      fst (respond cfg e t s) = Inr ()
      \<and> sorted (map phase (new_events s (snd (respond cfg e t s))))
      \<and> Call ''led_on'' \<in> set (new_events s (snd (respond cfg e t s)))
      \<and> Call ''capture_image'' \<in> set (new_events s (snd (respond cfg e t s)))
      \<and> (Call ''send_email_alert'' \<in> set (new_events s (snd (respond cfg e t s))) \<longleftrightarrow>
           camera_initialized s \<and> picam2 s \<and> makedirs_res e = None \<and> capture_res e = None
           \<and> email_configured s)
      \<and> filter (\<lambda>ev. phase ev = 4) (new_events s (snd (respond cfg e t s)))
           = [Sleep (LED_ON_TIME cfg)]
      \<and> Call ''led_off'' \<in> set (new_events s (snd (respond cfg e t s)))
      \<and> (gpio_initialized s \<longrightarrow>
           GpioOutput (LED_PIN cfg) True \<in> set (new_events s (snd (respond cfg e t s)))
           \<and> GpioOutput (LED_PIN cfg) False \<in> set (new_events s (snd (respond cfg e t s))))
      \<and> motion_detected_time (snd (respond cfg e t s)) = t)
   \<and> (hold_signal e \<noteq> None \<longrightarrow>
      fst (respond cfg e t s) = Inl (SystemExit 0)
      \<and> motion_detected_time (snd (respond cfg e t s)) = motion_detected_time s)"
proof (cases "hold_signal e")
  case None
  show ?thesis
    using respond_order [OF None, of s cfg t] respond_time(1,2) [OF None, of cfg t s] None
    by simp
next
  case (Some ce)
  then have "hold_signal e \<noteq> None" by simp
  from respond_interrupted [OF this, of cfg t s] show ?thesis using Some by simp
qed

theorem cycle_steps_in_order_witness:
  "sorted (map phase (new_events armed (snd (respond settings motion 1700000000 armed))))
   \<and> GpioOutput 18 True \<in> set (new_events armed (snd (respond settings motion 1700000000 armed)))
   \<and> GpioOutput 18 False \<in> set (new_events armed (snd (respond settings motion 1700000000 armed)))
   \<and> motion_detected_time (snd (respond settings motion 1700000000 armed)) = 1700000000
   \<and> motion_detected_time
        (snd (respond settings (motion\<lparr> hold_signal := Some calm \<rparr>) 1700000000 armed)) = 0"
  using cycle_steps_in_order [of motion settings 1700000000 armed]
    cycle_steps_in_order [of "motion\<lparr> hold_signal := Some calm \<rparr>" settings 1700000000 armed]
  by (simp add: motion_def armed_def boot_def settings_def)

subsection \<open>C3: exceptions inside a detection cycle\<close>




subsection \<open>C4: the exit status\<close>

text \<open>
  Claim C4 says that the process exits with status 0 on a termination signal. When the
  signal arrives while \<open>main\<close> is in the detection loop, the handler raises
  \<open>SystemExit(0)\<close>, which leaves \<open>main\<close> before \<open>exit_code\<close> is assigned; the
  \<open>finally\<close> clause then evaluates \<open>sys.exit(exit_code)\<close> with the name unbound, and
  the NameError ends the process with status 1.
\<close>

theorem signal_during_loop_exits_with_status_1:
  "fst (main settings sigterm_run (boot 1700000000)) = Inl (SystemExit 0)
   \<and> fst (entry_point settings sigterm_run calm (boot 1700000000)) = Some 1"
  by (simp add: entry_point_def finally_clause_def main_def setup_gpio_first_try driver_call_def
      GPIO_output_def setup_camera_def camera_handlers_def load_email_config_def Let_def
      sigterm_run_def settings_def boot_def motion_def calm_def loop_iteration_def poll_def
      GPIO_input_def time_sleep_def signal_handler_def cleanup_def emit_def)

subsection \<open>C5: no capture capability\<close>

text \<open>
  Claim C5. When the camera is not initialised or the camera object is absent,
  \<open>capture_image\<close> returns \<open>None\<close> and does nothing but report it: no directory or file
  is created and nothing else in the state changes. Over any number of iterations of the
  loop, the camera stays unavailable and no event of the notification step occurs; in
  particular \<open>send_email_alert\<close> is never called.
\<close>

theorem no_capture_without_camera:
  "(\<not> camera_initialized s \<or> \<not> picam2 s \<longrightarrow>
      capture_image cfg e s =
        (Inr None, s\<lparr> trace := trace s @ [Call ''capture_image'',
                                           Print ''Camera not initialized, skipping capture''] \<rparr>))
   \<and> (\<not> camera_initialized s \<or> \<not> picam2 s \<longrightarrow>
      list_all (\<lambda>ev. phase ev \<noteq> 3) (new_events s (snd (run_loop cfg es s)))
      \<and> Call ''send_email_alert'' \<notin> set (new_events s (snd (run_loop cfg es s)))
      \<and> camera_initialized (snd (run_loop cfg es s)) = camera_initialized s
      \<and> picam2 (snd (run_loop cfg es s)) = picam2 s)"
proof -
  have 1: "capture_image cfg e s =
        (Inr None, s\<lparr> trace := trace s @ [Call ''capture_image'',
                                           Print ''Camera not initialized, skipping capture''] \<rparr>)"
    if "\<not> camera_initialized s \<or> \<not> picam2 s"
    using that by (auto simp: capture_image_def Let_def emit_def)
  have 2: "list_all (\<lambda>ev. phase ev \<noteq> 3) (new_events s (snd (run_loop cfg es s)))
      \<and> Call ''send_email_alert'' \<notin> set (new_events s (snd (run_loop cfg es s)))"
    if "\<not> camera_initialized s \<or> \<not> picam2 s"
  proof -
    from that have "\<not> (camera_initialized s \<and> picam2 s \<and> email_configured s)" by blast
    from grows_new_events [OF run_loop_no_notify [OF this, of cfg es]]
    have n: "list_all (\<lambda>ev. phase ev \<noteq> 3) (new_events s (snd (run_loop cfg es s)))" .
    with phase_mem [OF n, of "Call ''send_email_alert''"] show ?thesis by auto
  qed
  have 3: "camera_initialized (snd (run_loop cfg es s)) = camera_initialized s
      \<and> picam2 (snd (run_loop cfg es s)) = picam2 s"
    using run_loop_globals [of s cfg es] by (simp add: same_globals_def)
  show ?thesis using 1 2 3 by blast
qed

theorem no_capture_without_camera_witness:
  "capture_image settings motion (boot 1700000000) =
     (Inr None, (boot 1700000000)\<lparr> trace := [Call ''capture_image'',
                                   Print ''Camera not initialized, skipping capture''] \<rparr>)
   \<and> Call ''send_email_alert'' \<notin> set (new_events (boot 1700000000)
        (snd (run_loop settings [motion, motion\<lparr> time_now := 1700000060 \<rparr>] (boot 1700000000))))"
  using no_capture_without_camera [of "boot 1700000000" settings motion
      "[motion, motion\<lparr> time_now := 1700000060 \<rparr>]"]
  by (simp add: boot_def del: run_loop.simps)

subsection \<open>C6: invalid mail configuration\<close>

text \<open>
  Claim C6. When one of the three required fields is missing from the parsed
  configuration, is empty, or starts with the placeholder prefix \<open>your_\<close>, or when
  the file is absent, \<open>load_email_config\<close> returns \<open>False\<close> and leaves
  \<open>email_configured\<close> as it was (false in a fresh process). Whenever
  \<open>email_configured\<close> is false, or the path is \<open>None\<close> or empty, or the file does
  not exist, \<open>send_email_alert\<close> returns \<open>False\<close> without attempting a connection.
  The loop never sets \<open>email_configured\<close>, so with mail disabled no run of the loop
  attempts a connection.
\<close>

theorem invalid_mail_config_disables_notifications:
  "(field \<in> set required_fields
      \<and> (parse_lines ls (email_config s) field = None
          \<or> parse_lines ls (email_config s) field = Some []
          \<or> (\<exists>v. parse_lines ls (email_config s) field = Some v \<and> startswith v ''your_''))
      \<longrightarrow>
      fst (load_email_config cfg (Content ls err) s) = Inr False
      \<and> email_configured (snd (load_email_config cfg (Content ls err) s)) = email_configured s)
   \<and> fst (load_email_config cfg NotFound s) = Inr False
   \<and> email_configured (snd (load_email_config cfg NotFound s)) = email_configured s
   \<and> (\<not> email_configured s \<or> falsy p \<or> \<not> exists_res e \<longrightarrow>
      fst (send_email_alert e p s) = Inr False
      \<and> SmtpConnect \<notin> set (new_events s (snd (send_email_alert e p s))))
   \<and> (\<not> email_configured s \<longrightarrow>
      \<not> email_configured (snd (run_loop cfg es s))
      \<and> SmtpConnect \<notin> set (new_events s (snd (run_loop cfg es s))))"
proof -
  have "field_missing (parse_lines ls (email_config s)) field"
    if "parse_lines ls (email_config s) field = None
          \<or> parse_lines ls (email_config s) field = Some []
          \<or> (\<exists>v. parse_lines ls (email_config s) field = Some v \<and> startswith v ''your_'')"
    using that by (auto simp: field_missing_def)
  then show ?thesis
    using load_email_config_invalid [of field ls s cfg err] load_email_config_absent [of cfg s]
      send_email_alert_disabled [of s p e] run_loop_email_disabled [of s cfg es]
    by auto
qed

theorem invalid_mail_config_disables_notifications_witness:
  "fst (load_email_config settings (Content placeholder_file None) (boot 1700000000)) = Inr False
   \<and> \<not> email_configured
        (snd (load_email_config settings (Content placeholder_file None) (boot 1700000000)))
   \<and> fst (send_email_alert motion (Some ''captured_images/motion_20231114_221320.jpg'')
        (boot 1700000000)) = Inr False
   \<and> SmtpConnect \<notin> set (new_events (boot 1700000000)
        (snd (run_loop settings [motion] (boot 1700000000))))"
  using invalid_mail_config_disables_notifications [of "''RECIPIENT_EMAIL''" placeholder_file
      "boot 1700000000" settings None "Some ''captured_images/motion_20231114_221320.jpg''"
      motion "[motion]"]
    placeholder_file_parsed
  by (simp add: boot_def required_fields_def startswith_def del: run_loop.simps)

subsection \<open>C7: which time is recorded as the time of the last accepted trigger\<close>

text \<open>
  Claim C7, as stated, says that the time recorded at the end of an accepted cycle is the
  current time at that moment, after the hold. It is not: with the configured hold of
  10 s, a cycle accepted at clock reading 1700000000 records 1700000000 while the clock
  reads 1700000010.
\<close>

theorem recorded_time_differs_from_clock:
  "motion_detected_time (snd (respond settings motion (time_now motion) armed))
     \<noteq> clock (snd (respond settings motion (time_now motion) armed))"
  using respond_time(2,3) [of motion settings "time_now motion" armed]
  by (simp add: motion_def armed_def boot_def settings_def)

text \<open>
  Claim C7, amended. The value recorded at the end of an accepted cycle is the clock
  reading \<open>current_time\<close> that was sampled when the trigger was accepted, before the
  actuator was driven; when the cycle ends the clock is ahead of it by the hold duration.
\<close>

theorem recorded_time_is_acceptance_time:
  "(hold_signal e = None \<longrightarrow>
      motion_detected_time (snd (respond cfg e t s)) = t
      \<and> clock (snd (respond cfg e t s)) = clock s + LED_ON_TIME cfg)
   \<and> (pir e = Inr True \<and> time_now e - motion_detected_time s > COOLDOWN_TIME cfg
       \<and> hold_signal e = None \<longrightarrow>
      motion_detected_time (snd (loop_iteration cfg e s)) = time_now e
      \<and> (poll_signal e = None \<longrightarrow>
          clock (snd (loop_iteration cfg e s)) = time_now e + LED_ON_TIME cfg + 1 / 10))"
proof -
  have 1: "motion_detected_time (snd (respond cfg e t s)) = t
      \<and> clock (snd (respond cfg e t s)) = clock s + LED_ON_TIME cfg" if "hold_signal e = None"
    using respond_time(2,3) [OF that, of cfg t s] by simp
  have 2: "motion_detected_time (snd (loop_iteration cfg e s)) = time_now e
      \<and> (poll_signal e = None \<longrightarrow>
          clock (snd (loop_iteration cfg e s)) = time_now e + LED_ON_TIME cfg + 1 / 10)"
    if a: "pir e = Inr True" "time_now e - motion_detected_time s > COOLDOWN_TIME cfg"
      and h: "hold_signal e = None"
  proof -
    let ?s1 = "(emit (GpioInput (PIR_PIN cfg)) s)\<lparr> clock := time_now e \<rparr>"
    let ?r = "respond cfg e (time_now e) ?s1"
    have r: "fst ?r = Inr ()" "motion_detected_time (snd ?r) = time_now e"
      "clock (snd ?r) = clock ?s1 + LED_ON_TIME cfg"
      using respond_time(1,2,3) [OF h, of cfg "time_now e" ?s1] by simp_all
    have li: "loop_iteration cfg e s = time_sleep cfg (1 / 10) (poll_signal e) (snd ?r)"
      using r(1) by (cases ?r) (simp add: loop_iteration_accept [OF a])
    show ?thesis
      using time_sleep_keeps [of "snd ?r" cfg "1 / 10" "poll_signal e"] r(2,3)
      by (auto simp: li)
  qed
  show ?thesis using 1 2 by blast
qed

theorem recorded_time_is_acceptance_time_witness:
  "motion_detected_time (snd (loop_iteration settings motion armed)) = 1700000000
   \<and> clock (snd (loop_iteration settings motion armed)) = 1700000000 + 10 + 1 / 10"
  using recorded_time_is_acceptance_time [of motion settings 0 armed]
  by (simp add: motion_def armed_def boot_def settings_def)

subsection \<open>C8: teardown\<close>




subsection \<open>C9: reads and writes without an initialised GPIO\<close>



subsection \<open>C10: the first active sample after the loop starts\<close>

text \<open>
  Claim C10, as stated, says that for every non-negative cooldown the first active sample
  is accepted. The test is \<open>current_time - 0 > COOLDOWN_TIME\<close>, so it fails when the
  clock reading does not exceed the cooldown: with the configured cooldown of 2 s at a
  clock reading of 2 s after the epoch, and at a present-day clock reading with a
  cooldown of 2000000000 s. In both cases a run of \<open>main\<close> reads the sensor active and
  does nothing but wait for the next poll.
\<close>

theorem first_sample_ignored_when_clock_within_cooldown:
  "Call ''led_on'' \<notin> set (new_events armed
       (snd (loop_iteration settings (motion\<lparr> time_now := 2 \<rparr>) armed)))
   \<and> Call ''led_on'' \<notin> set (new_events armed
       (snd (loop_iteration (settings\<lparr> COOLDOWN_TIME := 2000000000 \<rparr>) motion armed)))
   \<and> new_events (boot 0)
       (snd (main settings (sigterm_run\<lparr> cycles := [motion\<lparr> time_now := 2 \<rparr>] \<rparr>) (boot 0))) =
       [ForceRelease, GpioCleanup, GpioSetup, GpioOutput 18 False,
        Print ''picamera2 module not found'',
        Print ''Camera initialization failed. Running without camera.'',
        PathExists ''config/.env'', Print ''Email config file not found'',
        Makedirs ''captured_images'', GpioInput 17, Sleep (1 / 10)]
   \<and> new_events (boot 1700000000)
       (snd (main (settings\<lparr> COOLDOWN_TIME := 2000000000 \<rparr>) (sigterm_run\<lparr> cycles := [motion] \<rparr>)
          (boot 1700000000))) =
       [ForceRelease, GpioCleanup, GpioSetup, GpioOutput 18 False,
        Print ''picamera2 module not found'',
        Print ''Camera initialization failed. Running without camera.'',
        PathExists ''config/.env'', Print ''Email config file not found'',
        Makedirs ''captured_images'', GpioInput 17, Sleep (1 / 10)]"
  by (simp add: main_def setup_gpio_first_try setup_camera_def camera_handlers_def
      load_email_config_absent driver_call_def loop_iteration_cooldown sigterm_run_def
      motion_def armed_def boot_def settings_def new_events_def emit_def)

text \<open>
  Claim C10, amended. Whatever the last trigger time was before, \<open>main\<close> enters the
  detection loop with the last trigger time 0, once the lines are claimed and the save
  directory exists. After any number of iterations in which the sensor did not read
  active (it read inactive, or the read raised) \<open>main\<close> is still in the loop, no call of
  \<open>led_on\<close> has been made and the recorded time is still 0. The first active sample is
  then accepted (the actuator and the capture are called) exactly when the clock reading
  of that sample is greater than the cooldown, and when its hold is not interrupted the
  time recorded is that reading: there is no cooldown window at startup beyond that.
\<close>

theorem first_active_sample_accepted:
  assumes "\<not> list_all (\<lambda>attempt. gpio_attempts me attempt \<noteq> None) [0 ..< MAX_RETRIES]"
    and "save_dir_res me = None"
    and "list_all (\<lambda>e. pir e \<noteq> Inr True \<and> undisturbed e) es"
    and "pir e = Inr True"
  shows "fst (main cfg (me\<lparr> cycles := es \<rparr>) s) = Inr None
    \<and> motion_detected_time (snd (main cfg (me\<lparr> cycles := es \<rparr>) s)) = 0
    \<and> Call ''led_on'' \<notin> set (new_events s (snd (main cfg (me\<lparr> cycles := es \<rparr>) s)))
    \<and> snd (loop_iteration cfg e (snd (main cfg (me\<lparr> cycles := es \<rparr>) s))) =
        snd (main cfg (me\<lparr> cycles := es @ [e] \<rparr>) s)
    \<and> (Call ''led_on'' \<in> set (new_events s (snd (main cfg (me\<lparr> cycles := es @ [e] \<rparr>) s)))
        \<longleftrightarrow> COOLDOWN_TIME cfg < time_now e)
    \<and> (Call ''capture_image'' \<in> set (new_events s (snd (main cfg (me\<lparr> cycles := es @ [e] \<rparr>) s)))
        \<longleftrightarrow> COOLDOWN_TIME cfg < time_now e)
    \<and> (COOLDOWN_TIME cfg < time_now e \<and> hold_signal e = None \<longrightarrow>
        motion_detected_time (snd (main cfg (me\<lparr> cycles := es @ [e] \<rparr>) s)) = time_now e)"
proof (rule main_loop_state [OF assms(1,2), of s cfg])
  fix s0
  assume a: "grows startup_event s s0"
    "\<And>es. snd (main cfg (me\<lparr> cycles := es \<rparr>) s) =
       snd (run_loop cfg es (s0\<lparr> motion_detected_time := 0 \<rparr>))"
    "\<And>es. fst (main cfg (me\<lparr> cycles := es \<rparr>) s) =
       (if fst (run_loop cfg es (s0\<lparr> motion_detected_time := 0 \<rparr>)) = Inr () then Inr None
        else Inl (SystemExit 0))"
  let ?s0 = "s0\<lparr> motion_detected_time := 0 \<rparr>"
  let ?mid = "snd (run_loop cfg es ?s0)"
  let ?fin = "snd (loop_iteration cfg e ?mid)"
  have i: "fst (run_loop cfg es ?s0) = Inr ()" "motion_detected_time ?mid = 0"
    using run_loop_idle [OF assms(3), of cfg ?s0] by simp_all
  have c1: "fst (main cfg (me\<lparr> cycles := es \<rparr>) s) = Inr None" by (simp add: a(3) i(1))
  have mid: "snd (main cfg (me\<lparr> cycles := es \<rparr>) s) = ?mid" by (rule a(2))
  have c2: "motion_detected_time (snd (main cfg (me\<lparr> cycles := es \<rparr>) s)) = 0"
    by (simp only: mid i(2))
  obtain smid where rl: "run_loop cfg es ?s0 = (Inr (), smid)"
    using i(1) by (cases "run_loop cfg es ?s0") simp
  have sm: "?mid = smid" by (simp add: rl)
  have "snd (run_loop cfg (es @ [e]) ?s0) = snd (loop_iteration cfg e smid)"
    unfolding run_loop_append rl
    by (cases "loop_iteration cfg e smid") (simp split: sum.splits)
  then have "snd (run_loop cfg (es @ [e]) ?s0) = ?fin" by (simp only: sm)
  then have fin: "snd (main cfg (me\<lparr> cycles := es @ [e] \<rparr>) s) = ?fin" by (simp only: a(2))
  have c4: "snd (loop_iteration cfg e (snd (main cfg (me\<lparr> cycles := es \<rparr>) s))) =
        snd (main cfg (me\<lparr> cycles := es @ [e] \<rparr>) s)"
    by (simp only: fin mid)
  obtain xs where x: "trace s0 = trace s @ xs" "list_all startup_event xs"
    using a(1) by (auto simp: grows_def)
  obtain ys where y: "trace ?mid = trace ?s0 @ ys"
    "list_all (\<lambda>ev. phase ev = 0 \<or> phase ev = 4 \<or> phase ev = 5 \<or> phase ev = 6) ys"
    using run_loop_idle_events [OF assms(3), of ?s0 cfg] by (auto simp: grows_def)
  obtain rest where z: "trace ?fin = trace ?mid @ GpioInput (PIR_PIN cfg) # rest"
    using loop_iteration_reads [of cfg e ?mid] by blast
  have nm: "new_events s ?mid = xs @ ys"
    by (rule new_events_append) (simp add: y(1) x(1))
  have nz: "new_events ?mid ?fin = GpioInput (PIR_PIN cfg) # rest"
    by (rule new_events_append) (rule z)
  have nf: "new_events s ?fin = (xs @ ys) @ new_events ?mid ?fin"
    unfolding nz by (rule new_events_append) (simp add: z y(1) x(1))
  have nx: "Call f \<notin> set xs" for f
    using x(2) startup_event_nocall by (fastforce simp: list_all_iff)
  have ny: "Call ''led_on'' \<notin> set ys" "Call ''capture_image'' \<notin> set ys"
    using phase_mem [OF y(2), of "Call ''led_on''"] phase_mem [OF y(2), of "Call ''capture_image''"]
    by auto
  have c3: "Call ''led_on'' \<notin> set (new_events s (snd (main cfg (me\<lparr> cycles := es \<rparr>) s)))"
    using nx ny(1) by (simp add: mid nm)
  have l: "(Call ''led_on'' \<in> set (new_events ?mid ?fin) \<longleftrightarrow> COOLDOWN_TIME cfg < time_now e)
    \<and> (Call ''capture_image'' \<in> set (new_events ?mid ?fin) \<longleftrightarrow> COOLDOWN_TIME cfg < time_now e)"
  proof (cases "COOLDOWN_TIME cfg < time_now e")
    case True
    then have t: "time_now e - motion_detected_time ?mid > COOLDOWN_TIME cfg" by (simp add: i(2))
    from loop_iteration_accepted_events(1,2) [OF assms(4) t] True show ?thesis by simp
  next
    case False
    then have n: "\<not> (pir e = Inr True \<and> time_now e - motion_detected_time ?mid > COOLDOWN_TIME cfg)"
      by (simp add: i(2))
    from phase_mem [OF loop_iteration_ignored_events [OF n], of "Call ''led_on''"]
      phase_mem [OF loop_iteration_ignored_events [OF n], of "Call ''capture_image''"] False
    show ?thesis by auto
  qed
  have c5: "Call ''led_on'' \<in> set (new_events s (snd (main cfg (me\<lparr> cycles := es @ [e] \<rparr>) s)))
        \<longleftrightarrow> COOLDOWN_TIME cfg < time_now e"
    using l nx ny(1) by (simp add: fin nf)
  have c6: "Call ''capture_image'' \<in> set (new_events s (snd (main cfg (me\<lparr> cycles := es @ [e] \<rparr>) s)))
        \<longleftrightarrow> COOLDOWN_TIME cfg < time_now e"
    using l nx ny(2) by (simp add: fin nf)
  have c7: "COOLDOWN_TIME cfg < time_now e \<and> hold_signal e = None \<longrightarrow>
        motion_detected_time (snd (main cfg (me\<lparr> cycles := es @ [e] \<rparr>) s)) = time_now e"
  proof
    assume h: "COOLDOWN_TIME cfg < time_now e \<and> hold_signal e = None"
    then have t: "time_now e - motion_detected_time ?mid > COOLDOWN_TIME cfg" by (simp add: i(2))
    from loop_iteration_records [OF assms(4) t] h
    show "motion_detected_time (snd (main cfg (me\<lparr> cycles := es @ [e] \<rparr>) s)) = time_now e"
      by (simp add: fin)
  qed
  from c1 c2 c3 c4 c5 c6 c7 show ?thesis by (intro conjI) assumption+
qed

theorem first_active_sample_accepted_witness:
  "Call ''led_on'' \<in> set (new_events ((boot 1700000000)\<lparr> motion_detected_time := 1700000000 \<rparr>)
       (snd (main settings third_try_run ((boot 1700000000)\<lparr> motion_detected_time := 1700000000 \<rparr>))))
   \<and> motion_detected_time
       (snd (main settings third_try_run ((boot 1700000000)\<lparr> motion_detected_time := 1700000000 \<rparr>))) =
       1700000000
   \<and> motion_detected_time
       (snd (main settings
          (third_try_run\<lparr> cycles := [motion\<lparr> pir := Inr False \<rparr>, motion\<lparr> pir := Inl ''read error'' \<rparr>] \<rparr>)
          ((boot 1700000000)\<lparr> motion_detected_time := 1700000000 \<rparr>))) = 0"
  using first_active_sample_accepted [where me = third_try_run
      and es = "[motion\<lparr> pir := Inr False \<rparr>, motion\<lparr> pir := Inl ''read error'' \<rparr>]"
      and e = motion and cfg = settings
      and s = "(boot 1700000000)\<lparr> motion_detected_time := 1700000000 \<rparr>"]
  by (simp add: third_try_run_def range_MAX_RETRIES motion_def settings_def undisturbed_def)

end
